theory Spec2Isabelle
  imports Main "HOL-Library.Word"
begin

section \<open>The exa-go client (\<^verbatim>\<open>exa.go\<close>), embedded in HOL\<close>

text \<open>
  The package is a thin HTTP+JSON client: \<^verbatim>\<open>New\<close> builds a \<^verbatim>\<open>Client\<close>, the five
  operations shape a request record, and \<^verbatim>\<open>do\<close> performs one round trip.

  Conventions of the embedding.
  \<^item> A Go \<^verbatim>\<open>string\<close> is a \<open>string\<close> (a list of bytes); a Go \<^verbatim>\<open>int\<close> is an \<open>int\<close>
    (the source does no arithmetic on them; the 64-bit range is written out where the
    JSON decoder checks it); a \<^verbatim>\<open>float64\<close> is its 64-bit pattern.
  \<^item> A pointer or interface that the encoder or the source tests against \<^verbatim>\<open>nil\<close> is an
    \<open>option\<close>; a slice is a \<open>list option\<close>, \<open>None\<close> being the nil slice (the encoder
    writes \<^verbatim>\<open>null\<close> for it and \<^verbatim>\<open>[]\<close> for an empty one). The receiver \<^verbatim>\<open>c\<close> and the
    executor \<^verbatim>\<open>c.httpClient\<close>, which the source dereferences without a test, are
    taken to be non-nil, and an \<^verbatim>\<open>Option\<close> is a total function on clients: a call that
    would panic on a nil pointer or a nil function is outside the model.
  \<^item> The standard library is outside the repository. What the source needs of it is
    modelled next to its use: \<^verbatim>\<open>json.Marshal\<close> on the request structs (field order,
    \<^verbatim>\<open>omitempty\<close>), \<^verbatim>\<open>Decoder.Decode\<close> on the response structs (key matching, \<^verbatim>\<open>null\<close>,
    type mismatches), \<^verbatim>\<open>fmt\<close>'s \<^verbatim>\<open>%s\<close>, \<^verbatim>\<open>%d\<close> and \<^verbatim>\<open>%w\<close>, and the checks of
    \<^verbatim>\<open>http.NewRequestWithContext\<close>. The network, \<^verbatim>\<open>url.Parse\<close> and the JSON scanner
    are inputs of the model.
\<close>

subsection \<open>Errors\<close>

text \<open>
  An error of the standard library is either one whose text is given by the environment
  (the network, the URL parser, the JSON scanner, the encoder), or the decoder's
  \<^verbatim>\<open>UnmarshalTypeError\<close> with its fields \<^verbatim>\<open>Value\<close>, \<^verbatim>\<open>Type\<close>, \<^verbatim>\<open>Struct\<close> and \<^verbatim>\<open>Field\<close>
  (the path of JSON field names from the root).
\<close>

datatype lib_error =
    LibError string
  | UnmarshalTypeError string string string "string list"

fun join_dot :: "string list \<Rightarrow> string" where
  "join_dot [] = []"
| "join_dot [x] = x"
| "join_dot (x # y # ys) = x @ ''.'' @ join_dot (y # ys)"

fun lib_Error :: "lib_error \<Rightarrow> string" where
  "lib_Error (LibError s) = s"
| "lib_Error (UnmarshalTypeError v t s f) =
     (if s \<noteq> [] \<or> f \<noteq> []
      then ''json: cannot unmarshal '' @ v @ '' into Go struct field '' @ s @ ''.'' @ join_dot f
             @ '' of type '' @ t
      else ''json: cannot unmarshal '' @ v @ '' into Go value of type '' @ t)"

text \<open>
  The errors of the package are made by \<^verbatim>\<open>fmt.Errorf\<close>: a text, and the wrapped cause
  when the format has \<^verbatim>\<open>%w\<close>.
\<close>

datatype error = Error (Error_text: string) (Unwrap: "lib_error option")

definition Errorf_w :: "string \<Rightarrow> lib_error \<Rightarrow> error" where
  "Errorf_w prefix err = Error (prefix @ lib_Error err) (Some err)"

subsection \<open>\<^verbatim>\<open>%d\<close>: decimal integers\<close>

definition digit_char :: "nat \<Rightarrow> char" where
  "digit_char d = char_of (48 + d)"

fun utoa :: "nat \<Rightarrow> string" where
  "utoa n = (if n < 10 then [digit_char n] else utoa (n div 10) @ [digit_char (n mod 10)])"

declare utoa.simps [simp del]

definition itoa :: "int \<Rightarrow> string" where
  "itoa i = (if i < 0 then CHR ''-'' # utoa (nat (- i)) else utoa (nat i))"

subsection \<open>HTTP requests, responses and the executor\<close>

text \<open>
  A \<^verbatim>\<open>context.Context\<close> is opaque to the package; a nil one is \<open>None\<close>.
\<close>

datatype ctx = Ctx_id nat

text \<open>
  What the decoder's scanner finds at the head of a response body: the first JSON value
  of the stream (whatever follows it is not read), or an error (\<^verbatim>\<open>EOF\<close> on an empty
  body, a syntax error, a failed read). A number keeps its literal, and carries the
  \<^verbatim>\<open>float64\<close> that \<^verbatim>\<open>strconv.ParseFloat\<close> gives for it (\<open>None\<close>: out of range).
\<close>

datatype json =
    JNull
  | JBool bool
  | JNumber string "64 word option"
  | JString string
  | JArray "json list"
  | JObject "(string \<times> json) list"

record http_request =
  Method :: string
  URL :: string
  Header :: "(string \<times> string) list"
  Body :: "string option"
  Ctx :: ctx

record http_response =
  StatusCode :: int
  RespBody :: "lib_error + json"

text \<open>
  \<^verbatim>\<open>http.Client\<close>: its \<^verbatim>\<open>Timeout\<close> (a \<^verbatim>\<open>time.Duration\<close>, in nanoseconds) and what
  \<^verbatim>\<open>Do\<close> answers to a request: a response or a transport error.
\<close>

record http_Client =
  Timeout :: int
  Do :: "http_request \<Rightarrow> lib_error + http_response"

definition Second :: int where
  "Second = 1000000000"

text \<open>
  \<^verbatim>\<open>Header.Set\<close>: the value replaces the ones stored under the name. Names are kept as
  the source writes them (the library stores them in canonical case and looks them up
  ignoring case).
\<close>

fun Header_Set :: "(string \<times> string) list \<Rightarrow> string \<Rightarrow> string \<Rightarrow> (string \<times> string) list" where
  "Header_Set [] k v = [(k, v)]"
| "Header_Set ((k', v') # h) k v = (if k' = k then (k, v) # h else (k', v') # Header_Set h k v)"

definition Header_Get :: "(string \<times> string) list \<Rightarrow> string \<Rightarrow> string option" where
  "Header_Get h k = map_of h k"

subsection \<open>Client construction\<close>

definition baseURL_const :: string where
  "baseURL_const = ''https://api.exa.ai''"

record Client =
  apiKey :: string
  baseURL :: string
  httpClient :: http_Client

type_synonym Option = "Client \<Rightarrow> Client"

definition WithHTTPClient :: "http_Client \<Rightarrow> Option" where
  "WithHTTPClient client = (\<lambda>c. c\<lparr>httpClient := client\<rparr>)"

definition WithBaseURL :: "string \<Rightarrow> Option" where
  "WithBaseURL url = (\<lambda>c. c\<lparr>baseURL := url\<rparr>)"

text \<open>The loop \<^verbatim>\<open>for _, opt := range opts { opt(c) }\<close>.\<close>

fun apply_opts :: "Option list \<Rightarrow> Client \<Rightarrow> Client" where
  "apply_opts [] c = c"
| "apply_opts (opt # opts) c = apply_opts opts (opt c)"

text \<open>
  \<^verbatim>\<open>New\<close>. The default executor \<^verbatim>\<open>&http.Client{Timeout: 30 * time.Second}\<close> answers
  through the process's default transport, the parameter \<open>net\<close>.
\<close>

definition New :: "(http_request \<Rightarrow> lib_error + http_response) \<Rightarrow> string \<Rightarrow> Option list \<Rightarrow> Client" where
  "New net apiKey' opts =
     apply_opts opts
       \<lparr>apiKey = apiKey', baseURL = baseURL_const,
        httpClient = \<lparr>Timeout = 30 * Second, Do = net\<rparr>\<rparr>"

subsection \<open>\<^verbatim>\<open>json.Marshal\<close> on the request structs\<close>

text \<open>
  The encoder writes a string between double quotes, byte by byte: \<^verbatim>\<open>"\<close> and \<^verbatim>\<open>\\<close> behind
  a backslash, the short escapes for backspace, form feed, newline, carriage return and
  tab, \<^verbatim>\<open>\u00XX\<close> for the other control bytes and for \<^verbatim>\<open><\<close>, \<^verbatim>\<open>>\<close> and \<^verbatim>\<open>&\<close>, every other
  ASCII byte as it is. Bytes from 0x80 are copied, as the encoder does for well-formed
  UTF-8 (U+2028 and U+2029 apart, which it escapes; ill-formed bytes it replaces).
\<close>

definition dq :: char where
  "dq = CHR 0x22"

definition bsl :: char where
  "bsl = CHR 0x5C"

definition hex :: "nat \<Rightarrow> char" where
  "hex n = ''0123456789abcdef'' ! (n mod 16)"

definition escape_byte :: "char \<Rightarrow> string" where
  "escape_byte c =
     (let b = (of_char c :: nat) in
      if c = dq \<or> c = bsl then [bsl, c]
      else if b = 8 then [bsl, CHR ''b'']
      else if b = 12 then [bsl, CHR ''f'']
      else if b = 10 then [bsl, CHR ''n'']
      else if b = 13 then [bsl, CHR ''r'']
      else if b = 9 then [bsl, CHR ''t'']
      else if b < 32 \<or> c = CHR ''<'' \<or> c = CHR ''>'' \<or> c = CHR ''&''
      then [bsl, CHR ''u'', CHR ''0'', CHR ''0'', hex (b div 16), hex (b mod 16)]
      else [c])"

definition appendString :: "string \<Rightarrow> string" where
  "appendString s = dq # concat (map escape_byte s) @ [dq]"

text \<open>
  A struct is written as \<^verbatim>\<open>{"name":value,...}\<close>, the fields in declaration order, those
  of an embedded struct in its place. A field is a pair of its JSON name and the bytes
  of its value, or \<open>None\<close> when \<^verbatim>\<open>omitempty\<close> drops it.
\<close>

type_synonym member = "(string \<times> string) option"

fun join_comma :: "string list \<Rightarrow> string" where
  "join_comma [] = []"
| "join_comma [x] = x"
| "join_comma (x # y # ys) = x @ '','' @ join_comma (y # ys)"

definition write_member :: "string \<times> string \<Rightarrow> string" where
  "write_member kv = dq # fst kv @ [dq] @ '':'' @ snd kv"

definition present :: "member list \<Rightarrow> (string \<times> string) list" where
  "present ms = List.map_filter (\<lambda>m. m) ms"

definition write_struct :: "member list \<Rightarrow> string" where
  "write_struct ms = ''{'' @ join_comma (map write_member (present ms)) @ ''}''"

definition write_array :: "string list \<Rightarrow> string" where
  "write_array xs = ''['' @ join_comma xs @ '']''"

text \<open>The kinds of field of the request structs.\<close>

definition string_field :: "string \<Rightarrow> string \<Rightarrow> member" where
  "string_field name s = Some (name, appendString s)"

definition string_omitempty :: "string \<Rightarrow> string \<Rightarrow> member" where
  "string_omitempty name s = (if s = [] then None else Some (name, appendString s))"

definition int_omitempty :: "string \<Rightarrow> int \<Rightarrow> member" where
  "int_omitempty name i = (if i = 0 then None else Some (name, itoa i))"

definition bool_omitempty :: "string \<Rightarrow> bool \<Rightarrow> member" where
  "bool_omitempty name b = (if b then Some (name, ''true'') else None)"

definition write_strings :: "string list option \<Rightarrow> string" where
  "write_strings xs = (case xs of None \<Rightarrow> ''null'' | Some l \<Rightarrow> write_array (map appendString l))"

definition strings_field :: "string \<Rightarrow> string list option \<Rightarrow> member" where
  "strings_field name xs = Some (name, write_strings xs)"

definition strings_omitempty :: "string \<Rightarrow> string list option \<Rightarrow> member" where
  "strings_omitempty name xs =
     (case xs of None \<Rightarrow> None | Some l \<Rightarrow> if l = [] then None else Some (name, write_strings xs))"

definition pointer_omitempty :: "string \<Rightarrow> ('a \<Rightarrow> string) \<Rightarrow> 'a option \<Rightarrow> member" where
  "pointer_omitempty name enc p = (case p of None \<Rightarrow> None | Some x \<Rightarrow> Some (name, enc x))"

subsection \<open>Request types\<close>

record TextOptions =
  IncludeHtmlTags :: bool
  MaxCharacters :: int

record HighlightOptions =
  NumSentences :: int
  HighlightsPerURL :: int
  Query :: string

record SummaryOptions =
  Query :: string

record ContentsOptions =
  Text :: "TextOptions option"
  Highlights :: "HighlightOptions option"
  Summary :: "SummaryOptions option"
  LiveCrawl :: string

record SearchOptions =
  NumResults :: int
  IncludeDomains :: "string list option"
  ExcludeDomains :: "string list option"
  StartCrawlDate :: string
  EndCrawlDate :: string
  StartPublishedDate :: string
  EndPublishedDate :: string
  IncludeText :: "string list option"
  ExcludeText :: "string list option"
  Contents :: "ContentsOptions option"
  UseAutoprompt :: "bool option"
  Type :: string
  Category :: string

record searchRequest =
  Query :: string
  SearchOptions :: SearchOptions

record FindSimilarOptions =
  NumResults :: int
  IncludeDomains :: "string list option"
  ExcludeDomains :: "string list option"
  StartCrawlDate :: string
  EndCrawlDate :: string
  StartPublishedDate :: string
  EndPublishedDate :: string
  Contents :: "ContentsOptions option"

record findSimilarRequest =
  URL :: string
  FindSimilarOptions :: FindSimilarOptions

record GetContentsOptions =
  Text :: "TextOptions option"
  Highlights :: "HighlightOptions option"
  Summary :: "SummaryOptions option"
  LiveCrawl :: string

record getContentsRequest =
  IDs :: "string list option"
  GetContentsOptions :: GetContentsOptions

record AnswerOptions =
  Query :: string
  Text :: bool

text \<open>
  \<^verbatim>\<open>TokensNum interface{}\<close>: the nil interface, a string, an integer, any other value
  the encoder accepts (given by the bytes it writes for it), or a value it rejects
  (a channel, a function, a NaN), given by the encoder's error.
\<close>

datatype any =
    AnyNil
  | AnyString string
  | AnyInt int
  | AnyEncodable string
  | AnyUnsupported lib_error

record ContextOptions =
  Query :: string
  TokensNum :: any

definition fields_TextOptions :: "TextOptions \<Rightarrow> member list" where
  "fields_TextOptions v =
     [bool_omitempty ''includeHtmlTags'' (IncludeHtmlTags v),
      int_omitempty ''maxCharacters'' (MaxCharacters v)]"

definition fields_HighlightOptions :: "HighlightOptions \<Rightarrow> member list" where
  "fields_HighlightOptions v =
     [int_omitempty ''numSentences'' (NumSentences v),
      int_omitempty ''highlightsPerUrl'' (HighlightsPerURL v),
      string_omitempty ''query'' (HighlightOptions.Query v)]"

definition fields_SummaryOptions :: "SummaryOptions \<Rightarrow> member list" where
  "fields_SummaryOptions v = [string_omitempty ''query'' (SummaryOptions.Query v)]"

definition fields_ContentsOptions :: "ContentsOptions \<Rightarrow> member list" where
  "fields_ContentsOptions v =
     [pointer_omitempty ''text'' (write_struct \<circ> fields_TextOptions) (ContentsOptions.Text v),
      pointer_omitempty ''highlights'' (write_struct \<circ> fields_HighlightOptions)
        (ContentsOptions.Highlights v),
      pointer_omitempty ''summary'' (write_struct \<circ> fields_SummaryOptions)
        (ContentsOptions.Summary v),
      string_omitempty ''livecrawl'' (ContentsOptions.LiveCrawl v)]"

definition fields_SearchOptions :: "SearchOptions \<Rightarrow> member list" where
  "fields_SearchOptions v =
     [int_omitempty ''numResults'' (SearchOptions.NumResults v),
      strings_omitempty ''includeDomains'' (SearchOptions.IncludeDomains v),
      strings_omitempty ''excludeDomains'' (SearchOptions.ExcludeDomains v),
      string_omitempty ''startCrawlDate'' (SearchOptions.StartCrawlDate v),
      string_omitempty ''endCrawlDate'' (SearchOptions.EndCrawlDate v),
      string_omitempty ''startPublishedDate'' (SearchOptions.StartPublishedDate v),
      string_omitempty ''endPublishedDate'' (SearchOptions.EndPublishedDate v),
      strings_omitempty ''includeText'' (IncludeText v),
      strings_omitempty ''excludeText'' (ExcludeText v),
      pointer_omitempty ''contents'' (write_struct \<circ> fields_ContentsOptions)
        (SearchOptions.Contents v),
      pointer_omitempty ''useAutoprompt'' (\<lambda>b. if b then ''true'' else ''false'')
        (UseAutoprompt v),
      string_omitempty ''type'' (Type v),
      string_omitempty ''category'' (Category v)]"

definition fields_searchRequest :: "searchRequest \<Rightarrow> member list" where
  "fields_searchRequest v =
     string_field ''query'' (searchRequest.Query v) # fields_SearchOptions (SearchOptions v)"

definition fields_FindSimilarOptions :: "FindSimilarOptions \<Rightarrow> member list" where
  "fields_FindSimilarOptions v =
     [int_omitempty ''numResults'' (FindSimilarOptions.NumResults v),
      strings_omitempty ''includeDomains'' (FindSimilarOptions.IncludeDomains v),
      strings_omitempty ''excludeDomains'' (FindSimilarOptions.ExcludeDomains v),
      string_omitempty ''startCrawlDate'' (FindSimilarOptions.StartCrawlDate v),
      string_omitempty ''endCrawlDate'' (FindSimilarOptions.EndCrawlDate v),
      string_omitempty ''startPublishedDate'' (FindSimilarOptions.StartPublishedDate v),
      string_omitempty ''endPublishedDate'' (FindSimilarOptions.EndPublishedDate v),
      pointer_omitempty ''contents'' (write_struct \<circ> fields_ContentsOptions)
        (FindSimilarOptions.Contents v)]"

definition fields_findSimilarRequest :: "findSimilarRequest \<Rightarrow> member list" where
  "fields_findSimilarRequest v =
     string_field ''url'' (URL v) # fields_FindSimilarOptions (FindSimilarOptions v)"

definition fields_GetContentsOptions :: "GetContentsOptions \<Rightarrow> member list" where
  "fields_GetContentsOptions v =
     [pointer_omitempty ''text'' (write_struct \<circ> fields_TextOptions) (GetContentsOptions.Text v),
      pointer_omitempty ''highlights'' (write_struct \<circ> fields_HighlightOptions)
        (GetContentsOptions.Highlights v),
      pointer_omitempty ''summary'' (write_struct \<circ> fields_SummaryOptions)
        (GetContentsOptions.Summary v),
      string_omitempty ''livecrawl'' (GetContentsOptions.LiveCrawl v)]"

definition fields_getContentsRequest :: "getContentsRequest \<Rightarrow> member list" where
  "fields_getContentsRequest v =
     strings_field ''ids'' (IDs v) # fields_GetContentsOptions (GetContentsOptions v)"

definition fields_AnswerOptions :: "AnswerOptions \<Rightarrow> member list" where
  "fields_AnswerOptions v =
     [string_field ''query'' (AnswerOptions.Query v),
      bool_omitempty ''text'' (AnswerOptions.Text v)]"

text \<open>
  An interface field is dropped by \<^verbatim>\<open>omitempty\<close> only when it is the nil interface; the
  encoder's error for the value it holds fails the whole \<^verbatim>\<open>Marshal\<close>.
\<close>

fun write_any :: "any \<Rightarrow> lib_error + string" where
  "write_any AnyNil = Inr ''null''"
| "write_any (AnyString s) = Inr (appendString s)"
| "write_any (AnyInt i) = Inr (itoa i)"
| "write_any (AnyEncodable bytes) = Inr bytes"
| "write_any (AnyUnsupported err) = Inl err"

definition any_omitempty :: "string \<Rightarrow> any \<Rightarrow> lib_error + member" where
  "any_omitempty name a =
     (if a = AnyNil then Inr None
      else case write_any a of Inl err \<Rightarrow> Inl err | Inr bytes \<Rightarrow> Inr (Some (name, bytes)))"

definition fields_ContextOptions :: "ContextOptions \<Rightarrow> lib_error + member list" where
  "fields_ContextOptions v =
     (case any_omitempty ''tokensNum'' (TokensNum v) of
        Inl err \<Rightarrow> Inl err
      | Inr m \<Rightarrow> Inr [string_field ''query'' (ContextOptions.Query v), m])"

text \<open>
  The \<^verbatim>\<open>body interface{}\<close> of \<^verbatim>\<open>do\<close> holds one of the five request structs.
\<close>

datatype body =
    Body_searchRequest searchRequest
  | Body_findSimilarRequest findSimilarRequest
  | Body_getContentsRequest getContentsRequest
  | Body_AnswerOptions AnswerOptions
  | Body_ContextOptions ContextOptions

fun json_Marshal :: "body \<Rightarrow> lib_error + string" where
  "json_Marshal (Body_searchRequest v) = Inr (write_struct (fields_searchRequest v))"
| "json_Marshal (Body_findSimilarRequest v) = Inr (write_struct (fields_findSimilarRequest v))"
| "json_Marshal (Body_getContentsRequest v) = Inr (write_struct (fields_getContentsRequest v))"
| "json_Marshal (Body_AnswerOptions v) = Inr (write_struct (fields_AnswerOptions v))"
| "json_Marshal (Body_ContextOptions v) =
     (case fields_ContextOptions v of
        Inl err \<Rightarrow> Inl err
      | Inr ms \<Rightarrow> Inr (write_struct ms))"

subsection \<open>\<^verbatim>\<open>Decoder.Decode\<close> on the response structs\<close>

text \<open>The \<^verbatim>\<open>Value\<close> of a type mismatch names the kind of JSON value met.\<close>

fun kind :: "json \<Rightarrow> string" where
  "kind JNull = ''null''"
| "kind (JBool b) = ''bool''"
| "kind (JNumber lit f) = ''number''"
| "kind (JString s) = ''string''"
| "kind (JArray js) = ''array''"
| "kind (JObject ms) = ''object''"

definition mismatch :: "json \<Rightarrow> string \<Rightarrow> lib_error" where
  "mismatch j type = UnmarshalTypeError (kind j) type [] []"

text \<open>
  Every decoder takes the JSON value and the current content of the destination and
  gives its new content, or the first type mismatch (the library records the first one
  and reports it at the end). \<^verbatim>\<open>null\<close> leaves a string, a number or a struct as it
  is, and sets a slice or an interface to nil.
\<close>

type_synonym 'a decoder = "json \<Rightarrow> 'a \<Rightarrow> lib_error + 'a"

fun decode_string :: "string decoder" where
  "decode_string (JString s) old = Inr s"
| "decode_string JNull old = Inr old"
| "decode_string j old = Inl (mismatch j ''string'')"

fun decode_float64 :: "64 word decoder" where
  "decode_float64 (JNumber lit f) old =
     (case f of
        Some x \<Rightarrow> Inr x
      | None \<Rightarrow> Inl (UnmarshalTypeError (''number '' @ lit) ''float64'' [] []))"
| "decode_float64 JNull old = Inr old"
| "decode_float64 j old = Inl (mismatch j ''float64'')"

text \<open>\<^verbatim>\<open>strconv.ParseInt(s, 10, 64)\<close>: an optional sign, decimal digits, the 64-bit range.\<close>

definition is_digit :: "char \<Rightarrow> bool" where
  "is_digit c = (48 \<le> (of_char c :: nat) \<and> (of_char c :: nat) \<le> 57)"

fun digits_value :: "nat \<Rightarrow> string \<Rightarrow> nat" where
  "digits_value acc [] = acc"
| "digits_value acc (c # cs) = digits_value (10 * acc + ((of_char c :: nat) - 48)) cs"

definition ParseInt :: "string \<Rightarrow> int option" where
  "ParseInt s =
     (let neg = (s \<noteq> [] \<and> hd s = CHR ''-'');
          ds = (if s \<noteq> [] \<and> (hd s = CHR ''-'' \<or> hd s = CHR ''+'') then tl s else s)
      in if ds = [] \<or> \<not> list_all is_digit ds then None
         else let v = (if neg then - int (digits_value 0 ds) else int (digits_value 0 ds))
              in if - (2 ^ 63) \<le> v \<and> v < 2 ^ 63 then Some v else None)"

fun decode_int :: "int decoder" where
  "decode_int (JNumber lit f) old =
     (case ParseInt lit of
        Some n \<Rightarrow> Inr n
      | None \<Rightarrow> Inl (UnmarshalTypeError (''number '' @ lit) ''int'' [] []))"
| "decode_int JNull old = Inr old"
| "decode_int j old = Inl (mismatch j ''int'')"

text \<open>
  An array into a slice: element \<open>i\<close> is decoded into the element the slice already has
  at \<open>i\<close>, or into a zero value when it is shorter; the slice ends with the array.
\<close>

fun decode_elems :: "'a decoder \<Rightarrow> 'a \<Rightarrow> 'a list \<Rightarrow> json list \<Rightarrow> lib_error + 'a list" where
  "decode_elems dec zero old [] = Inr []"
| "decode_elems dec zero old (j # js) =
     (case dec j (case old of [] \<Rightarrow> zero | x # xs \<Rightarrow> x) of
        Inl err \<Rightarrow> Inl err
      | Inr v \<Rightarrow>
          (case decode_elems dec zero (tl old) js of
             Inl err \<Rightarrow> Inl err
           | Inr vs \<Rightarrow> Inr (v # vs)))"

definition decode_slice :: "string \<Rightarrow> 'a decoder \<Rightarrow> 'a \<Rightarrow> 'a list option decoder" where
  "decode_slice type dec zero j old =
     (case j of
        JNull \<Rightarrow> Inr None
      | JArray js \<Rightarrow>
          (case decode_elems dec zero (case old of None \<Rightarrow> [] | Some l \<Rightarrow> l) js of
             Inl err \<Rightarrow> Inl err
           | Inr vs \<Rightarrow> Inr (Some vs))
      | _ \<Rightarrow> Inl (mismatch j type))"

text \<open>
  An object into a struct. Each member, in the order of the document, is matched with a
  field: by its exact JSON name, or else ignoring case (ASCII letters, and the two
  other letters that fold to ASCII ones, U+017F to \<^verbatim>\<open>S\<close> and U+212A to \<^verbatim>\<open>K\<close>); a
  member that matches no field is skipped. A mismatch inside a field is reported with
  the struct and the path of field names.
\<close>

fun foldName :: "string \<Rightarrow> string" where
  "foldName [] = []"
| "foldName (c # cs) =
     (if c = CHR 0xC5 \<and> take 1 cs = [CHR 0xBF] then CHR ''S'' # foldName (drop 1 cs)
      else if c = CHR 0xE2 \<and> take 2 cs = [CHR 0x84, CHR 0xAA] then CHR ''K'' # foldName (drop 2 cs)
      else if 97 \<le> (of_char c :: nat) \<and> (of_char c :: nat) \<le> 122
      then char_of ((of_char c :: nat) - 32) # foldName cs
      else c # foldName cs)"

declare foldName.simps [simp del]

type_synonym 'a field = "string \<times> 'a decoder"

definition find_field :: "'a field list \<Rightarrow> string \<Rightarrow> 'a field option" where
  "find_field fs key =
     (case find (\<lambda>f. fst f = key) fs of
        Some f \<Rightarrow> Some f
      | None \<Rightarrow> find (\<lambda>f. foldName (fst f) = foldName key) fs)"

fun add_context :: "string \<Rightarrow> string \<Rightarrow> lib_error \<Rightarrow> lib_error" where
  "add_context struct name (LibError s) = LibError s"
| "add_context struct name (UnmarshalTypeError v t s f) =
     (if f = [] then UnmarshalTypeError v t struct [name]
      else UnmarshalTypeError v t s (name # f))"

fun decode_members :: "string \<Rightarrow> 'a field list \<Rightarrow> (string \<times> json) list \<Rightarrow> 'a \<Rightarrow> lib_error + 'a" where
  "decode_members struct fs [] v = Inr v"
| "decode_members struct fs (m # ms) v =
     (case find_field fs (fst m) of
        None \<Rightarrow> decode_members struct fs ms v
      | Some f \<Rightarrow>
          (case snd f (snd m) v of
             Inl err \<Rightarrow> Inl (add_context struct (fst f) err)
           | Inr v' \<Rightarrow> decode_members struct fs ms v'))"

definition decode_struct :: "string \<Rightarrow> string \<Rightarrow> 'a field list \<Rightarrow> 'a decoder" where
  "decode_struct type struct fs j old =
     (case j of
        JNull \<Rightarrow> Inr old
      | JObject ms \<Rightarrow> decode_members struct fs ms old
      | _ \<Rightarrow> Inl (mismatch j type))"

text \<open>A field of a struct: read it, decode into it, write it back.\<close>

definition into :: "('r \<Rightarrow> 'a) \<Rightarrow> ('a \<Rightarrow> 'r \<Rightarrow> 'r) \<Rightarrow> 'a decoder \<Rightarrow> 'r decoder" where
  "into get put dec j r = (case dec j (get r) of Inl err \<Rightarrow> Inl err | Inr x \<Rightarrow> Inr (put x r))"

text \<open>
  \<^verbatim>\<open>Decode\<close>: the scanner's error, or the first value of the stream decoded into the
  destination.
\<close>

definition Decode :: "lib_error + json \<Rightarrow> 'r \<Rightarrow> 'r decoder \<Rightarrow> lib_error + 'r" where
  "Decode stream dst dec = (case stream of Inl err \<Rightarrow> Inl err | Inr j \<Rightarrow> dec j dst)"

text \<open>
  A value decoded into an empty \<^verbatim>\<open>interface{}\<close>: nil, a bool, a \<^verbatim>\<open>float64\<close>, a string,
  a slice or a map (here its entries, one per key, the last value of a repeated key).
\<close>

datatype iface =
    INil
  | IBool bool
  | IFloat64 "64 word"
  | IString string
  | ISlice "iface list"
  | IMap "(string \<times> iface) list"

fun sequence :: "('e + 'a) list \<Rightarrow> 'e + 'a list" where
  "sequence [] = Inr []"
| "sequence (x # xs) =
     (case x of
        Inl e \<Rightarrow> Inl e
      | Inr v \<Rightarrow> (case sequence xs of Inl e \<Rightarrow> Inl e | Inr vs \<Rightarrow> Inr (v # vs)))"

fun map_assign :: "(string \<times> 'v) list \<Rightarrow> string \<times> 'v \<Rightarrow> (string \<times> 'v) list" where
  "map_assign [] kv = [kv]"
| "map_assign (e # es) kv = (if fst e = fst kv then kv # es else e # map_assign es kv)"

fun valueInterface :: "json \<Rightarrow> lib_error + iface" where
  "valueInterface JNull = Inr INil"
| "valueInterface (JBool b) = Inr (IBool b)"
| "valueInterface (JNumber lit f) =
     (case f of
        Some x \<Rightarrow> Inr (IFloat64 x)
      | None \<Rightarrow> Inl (UnmarshalTypeError (''number '' @ lit) ''float64'' [] []))"
| "valueInterface (JString s) = Inr (IString s)"
| "valueInterface (JArray js) =
     (case sequence (map valueInterface js) of
        Inl err \<Rightarrow> Inl err
      | Inr vs \<Rightarrow> Inr (ISlice vs))"
| "valueInterface (JObject ms) =
     (case sequence (map (\<lambda>m. case valueInterface (snd m) of
                                  Inl err \<Rightarrow> Inl err
                                | Inr v \<Rightarrow> Inr (fst m, v)) ms) of
        Inl err \<Rightarrow> Inl err
      | Inr es \<Rightarrow> Inr (IMap (foldl map_assign [] es)))"

definition decode_interface :: "iface decoder" where
  "decode_interface j old = valueInterface j"

subsection \<open>Response types\<close>

record Result =
  ID :: string
  URL :: string
  Title :: string
  Author :: string
  PublishedDate :: string
  Text :: string
  Highlights :: "string list option"
  Summary :: string
  Score :: "64 word"
  Image :: string
  Favicon :: string

record SearchResponse =
  Results :: "Result list option"
  RequestID :: string

record GetContentsResponse =
  Results :: "Result list option"
  RequestID :: string

record answerResponse =
  Answer :: string
  Citations :: "Result list option"
  RequestID :: string

record AnswerResponse =
  Answer :: string
  Citations :: "Result list option"
  RequestID :: string

record ContextResponse =
  Response :: string
  RequestID :: string
  ResultsCount :: int
  SearchTime :: "64 word"
  OutputTokens :: int
  CostDollars :: iface

text \<open>The anonymous struct \<^verbatim>\<open>errResp\<close> of \<^verbatim>\<open>do\<close>.\<close>

record errResp =
  Message :: string

text \<open>The zero values of \<^verbatim>\<open>var resp T\<close>.\<close>

definition zero_Result :: Result where
  "zero_Result =
     \<lparr>ID = [], URL = [], Title = [], Author = [], PublishedDate = [], Text = [],
      Highlights = None, Summary = [], Score = 0, Image = [], Favicon = []\<rparr>"

definition zero_SearchResponse :: SearchResponse where
  "zero_SearchResponse = \<lparr>SearchResponse.Results = None, RequestID = []\<rparr>"

definition zero_GetContentsResponse :: GetContentsResponse where
  "zero_GetContentsResponse = \<lparr>GetContentsResponse.Results = None, RequestID = []\<rparr>"

definition zero_answerResponse :: answerResponse where
  "zero_answerResponse = \<lparr>answerResponse.Answer = [], Citations = None, RequestID = []\<rparr>"

definition zero_ContextResponse :: ContextResponse where
  "zero_ContextResponse =
     \<lparr>Response = [], RequestID = [], ResultsCount = 0, SearchTime = 0, OutputTokens = 0,
      CostDollars = INil\<rparr>"

definition zero_errResp :: errResp where
  "zero_errResp = \<lparr>Message = []\<rparr>"

text \<open>The fields of each struct under their JSON names, in declaration order.\<close>

definition fields_Result :: "Result field list" where
  "fields_Result =
     [(''id'', into ID (\<lambda>x r. r\<lparr>ID := x\<rparr>) decode_string),
      (''url'', into Result.URL (\<lambda>x r. r\<lparr>Result.URL := x\<rparr>) decode_string),
      (''title'', into Title (\<lambda>x r. r\<lparr>Title := x\<rparr>) decode_string),
      (''author'', into Author (\<lambda>x r. r\<lparr>Author := x\<rparr>) decode_string),
      (''publishedDate'', into PublishedDate (\<lambda>x r. r\<lparr>PublishedDate := x\<rparr>) decode_string),
      (''text'', into Result.Text (\<lambda>x r. r\<lparr>Result.Text := x\<rparr>) decode_string),
      (''highlights'', into Result.Highlights (\<lambda>x r. r\<lparr>Result.Highlights := x\<rparr>)
                         (decode_slice ''[]string'' decode_string [])),
      (''summary'', into Result.Summary (\<lambda>x r. r\<lparr>Result.Summary := x\<rparr>) decode_string),
      (''score'', into Score (\<lambda>x r. r\<lparr>Score := x\<rparr>) decode_float64),
      (''image'', into Image (\<lambda>x r. r\<lparr>Image := x\<rparr>) decode_string),
      (''favicon'', into Favicon (\<lambda>x r. r\<lparr>Favicon := x\<rparr>) decode_string)]"

definition decode_Result :: "Result decoder" where
  "decode_Result = decode_struct ''exa.Result'' ''Result'' fields_Result"

definition decode_Results :: "Result list option decoder" where
  "decode_Results = decode_slice ''[]exa.Result'' decode_Result zero_Result"

definition fields_SearchResponse :: "SearchResponse field list" where
  "fields_SearchResponse =
     [(''results'', into SearchResponse.Results (\<lambda>x r. r\<lparr>SearchResponse.Results := x\<rparr>)
                      decode_Results),
      (''requestId'', into SearchResponse.RequestID (\<lambda>x r. r\<lparr>SearchResponse.RequestID := x\<rparr>)
                        decode_string)]"

definition decode_SearchResponse :: "SearchResponse decoder" where
  "decode_SearchResponse =
     decode_struct ''exa.SearchResponse'' ''SearchResponse'' fields_SearchResponse"

definition fields_GetContentsResponse :: "GetContentsResponse field list" where
  "fields_GetContentsResponse =
     [(''results'', into GetContentsResponse.Results
                      (\<lambda>x r. r\<lparr>GetContentsResponse.Results := x\<rparr>) decode_Results),
      (''requestId'', into GetContentsResponse.RequestID
                        (\<lambda>x r. r\<lparr>GetContentsResponse.RequestID := x\<rparr>) decode_string)]"

definition decode_GetContentsResponse :: "GetContentsResponse decoder" where
  "decode_GetContentsResponse =
     decode_struct ''exa.GetContentsResponse'' ''GetContentsResponse'' fields_GetContentsResponse"

definition fields_answerResponse :: "answerResponse field list" where
  "fields_answerResponse =
     [(''answer'', into answerResponse.Answer (\<lambda>x r. r\<lparr>answerResponse.Answer := x\<rparr>)
                     decode_string),
      (''citations'', into answerResponse.Citations (\<lambda>x r. r\<lparr>answerResponse.Citations := x\<rparr>)
                        decode_Results),
      (''requestId'', into answerResponse.RequestID (\<lambda>x r. r\<lparr>answerResponse.RequestID := x\<rparr>)
                        decode_string)]"

definition decode_answerResponse :: "answerResponse decoder" where
  "decode_answerResponse =
     decode_struct ''exa.answerResponse'' ''answerResponse'' fields_answerResponse"

definition fields_ContextResponse :: "ContextResponse field list" where
  "fields_ContextResponse =
     [(''response'', into Response (\<lambda>x r. r\<lparr>Response := x\<rparr>) decode_string),
      (''requestId'', into ContextResponse.RequestID
                        (\<lambda>x r. r\<lparr>ContextResponse.RequestID := x\<rparr>) decode_string),
      (''resultsCount'', into ResultsCount (\<lambda>x r. r\<lparr>ResultsCount := x\<rparr>) decode_int),
      (''searchTime'', into SearchTime (\<lambda>x r. r\<lparr>SearchTime := x\<rparr>) decode_float64),
      (''outputTokens'', into OutputTokens (\<lambda>x r. r\<lparr>OutputTokens := x\<rparr>) decode_int),
      (''costDollars'', into CostDollars (\<lambda>x r. r\<lparr>CostDollars := x\<rparr>) decode_interface)]"

definition decode_ContextResponse :: "ContextResponse decoder" where
  "decode_ContextResponse =
     decode_struct ''exa.ContextResponse'' ''ContextResponse'' fields_ContextResponse"

definition fields_errResp :: "errResp field list" where
  "fields_errResp = [(''message'', into Message (\<lambda>x r. r\<lparr>Message := x\<rparr>) decode_string)]"

definition decode_errResp :: "errResp decoder" where
  "decode_errResp =
     decode_struct (''struct { Message string '' @ [dq] @ ''json:'' @ [bsl, dq] @ ''message''
                    @ [bsl, dq, dq] @ '' }'') [] fields_errResp"

subsection \<open>\<^verbatim>\<open>http.NewRequestWithContext\<close>\<close>

text \<open>
  The library refuses, in this order, a method that is not a token, a nil context and a
  URL that \<^verbatim>\<open>url.Parse\<close> rejects (the parameter \<open>url_Parse\<close> gives its error). The new
  request has no header. The refused method is quoted in the error as \<^verbatim>\<open>%q\<close> does for
  printable ASCII without quotes or backslashes.
\<close>

definition isTokenRune :: "char \<Rightarrow> bool" where
  "isTokenRune c =
     (let b = (of_char c :: nat) in
      (48 \<le> b \<and> b \<le> 57) \<or> (65 \<le> b \<and> b \<le> 90) \<or> (97 \<le> b \<and> b \<le> 122)
      \<or> b \<in> {33, 35, 36, 37, 38, 39, 42, 43, 45, 46, 94, 95, 96, 124, 126})"

definition validMethod :: "string \<Rightarrow> bool" where
  "validMethod method = (method \<noteq> [] \<and> list_all isTokenRune method)"

definition NewRequestWithContext ::
  "(string \<Rightarrow> lib_error option) \<Rightarrow> ctx option \<Rightarrow> string \<Rightarrow> string \<Rightarrow> string option
     \<Rightarrow> lib_error + http_request" where
  "NewRequestWithContext url_Parse ctx method url body =
     (let method' = (if method = [] then ''GET'' else method) in
      if \<not> validMethod method'
      then Inl (LibError (''net/http: invalid method '' @ [dq] @ method' @ [dq]))
      else case ctx of
             None \<Rightarrow> Inl (LibError ''net/http: nil Context'')
           | Some cx \<Rightarrow>
               (case url_Parse url of
                  Some err \<Rightarrow> Inl err
                | None \<Rightarrow> Inr \<lparr>Method = method', http_request.URL = url, Header = [],
                               Body = body, Ctx = cx\<rparr>))"

subsection \<open>The dispatcher \<^verbatim>\<open>do\<close>\<close>

text \<open>
  \<^verbatim>\<open>do\<close> returns an error or nil, and writes the decoded response through \<^verbatim>\<open>result\<close>.
  Here \<open>dst\<close> is the content of the caller's variable, \<open>result\<close> is \<open>None\<close> for a nil
  \<^verbatim>\<open>result\<close> and otherwise the decoder of the variable's type; the value returned is
  the list of the requests handed to the executor, with the error (\<open>Inl\<close>) or the
  content of the variable after a return of nil (\<open>Inr\<close>).
\<close>

definition do ::
  "(string \<Rightarrow> lib_error option) \<Rightarrow> Client \<Rightarrow> ctx option \<Rightarrow> string \<Rightarrow> string \<Rightarrow> body option
     \<Rightarrow> 'r \<Rightarrow> 'r decoder option \<Rightarrow> http_request list \<times> (error + 'r)" where
  "do url_Parse c ctx method path body dst result =
     (case (case body of
              None \<Rightarrow> Inr None
            | Some b \<Rightarrow>
                (case json_Marshal b of
                   Inl err \<Rightarrow> Inl err
                 | Inr jsonBody \<Rightarrow> Inr (Some jsonBody))) of
        Inl err \<Rightarrow> ([], Inl (Errorf_w ''failed to marshal request body: '' err))
      | Inr bodyReader \<Rightarrow>
          (case NewRequestWithContext url_Parse ctx method (baseURL c @ path) bodyReader of
             Inl err \<Rightarrow> ([], Inl (Errorf_w ''failed to create request: '' err))
           | Inr req0 \<Rightarrow>
               (let req = req0\<lparr>Header :=
                            Header_Set
                              (Header_Set
                                 (Header_Set (Header req0) ''Content-Type'' ''application/json'')
                                 ''x-api-key'' (apiKey c))
                              ''User-Agent'' ''exa-go-client/1.0''\<rparr>
                in case Do (httpClient c) req of
                     Inl err \<Rightarrow> ([req], Inl (Errorf_w ''failed to execute request: '' err))
                   | Inr resp \<Rightarrow>
                       if StatusCode resp \<ge> 400
                       then (case Decode (RespBody resp) zero_errResp decode_errResp of
                               Inl err \<Rightarrow>
                                 ([req], Inl (Error (''api request failed with status ''
                                                      @ itoa (StatusCode resp)) None))
                             | Inr errResp \<Rightarrow>
                                 ([req], Inl (Error (''api error: '' @ Message errResp
                                                      @ '' (status '' @ itoa (StatusCode resp)
                                                      @ '')'') None)))
                       else (case result of
                               None \<Rightarrow> ([req], Inr dst)
                             | Some dec \<Rightarrow>
                                 (case Decode (RespBody resp) dst dec of
                                    Inl err \<Rightarrow>
                                      ([req], Inl (Errorf_w ''failed to decode response: '' err))
                                  | Inr v \<Rightarrow> ([req], Inr v))))))"

subsection \<open>The five operations\<close>

text \<open>
  Each returns the requests it handed to the executor and the Go pair
  \<^verbatim>\<open>(*Response, error)\<close>, a nil component being \<open>None\<close>.
\<close>

type_synonym 'r call = "http_request list \<times> ('r option \<times> error option)"

definition Search ::
  "(string \<Rightarrow> lib_error option) \<Rightarrow> Client \<Rightarrow> ctx option \<Rightarrow> string \<Rightarrow> SearchOptions
     \<Rightarrow> SearchResponse call" where
  "Search url_Parse c ctx query opts =
     (let reqBody = \<lparr>searchRequest.Query = query, SearchOptions = opts\<rparr>
      in case do url_Parse c ctx ''POST'' ''/search'' (Some (Body_searchRequest reqBody))
                zero_SearchResponse (Some decode_SearchResponse) of
           (sent, Inl err) \<Rightarrow> (sent, (None, Some err))
         | (sent, Inr resp) \<Rightarrow> (sent, (Some resp, None)))"

definition FindSimilar ::
  "(string \<Rightarrow> lib_error option) \<Rightarrow> Client \<Rightarrow> ctx option \<Rightarrow> string \<Rightarrow> FindSimilarOptions
     \<Rightarrow> SearchResponse call" where
  "FindSimilar url_Parse c ctx url opts =
     (let reqBody = \<lparr>findSimilarRequest.URL = url, FindSimilarOptions = opts\<rparr>
      in case do url_Parse c ctx ''POST'' ''/findSimilar'' (Some (Body_findSimilarRequest reqBody))
                zero_SearchResponse (Some decode_SearchResponse) of
           (sent, Inl err) \<Rightarrow> (sent, (None, Some err))
         | (sent, Inr resp) \<Rightarrow> (sent, (Some resp, None)))"

definition GetContents ::
  "(string \<Rightarrow> lib_error option) \<Rightarrow> Client \<Rightarrow> ctx option \<Rightarrow> string list option
     \<Rightarrow> GetContentsOptions \<Rightarrow> GetContentsResponse call" where
  "GetContents url_Parse c ctx ids opts =
     (let reqBody = \<lparr>IDs = ids, GetContentsOptions = opts\<rparr>
      in case do url_Parse c ctx ''POST'' ''/contents'' (Some (Body_getContentsRequest reqBody))
                zero_GetContentsResponse (Some decode_GetContentsResponse) of
           (sent, Inl err) \<Rightarrow> (sent, (None, Some err))
         | (sent, Inr resp) \<Rightarrow> (sent, (Some resp, None)))"

definition Answer ::
  "(string \<Rightarrow> lib_error option) \<Rightarrow> Client \<Rightarrow> ctx option \<Rightarrow> string \<Rightarrow> AnswerResponse call" where
  "Answer url_Parse c ctx query =
     (let reqBody = \<lparr>AnswerOptions.Query = query, Text = True\<rparr>
      in case do url_Parse c ctx ''POST'' ''/answer'' (Some (Body_AnswerOptions reqBody))
                zero_answerResponse (Some decode_answerResponse) of
           (sent, Inl err) \<Rightarrow> (sent, (None, Some err))
         | (sent, Inr resp) \<Rightarrow>
             (sent, (Some \<lparr>AnswerResponse.Answer = answerResponse.Answer resp,
                           Citations = answerResponse.Citations resp,
                           RequestID = answerResponse.RequestID resp\<rparr>, None)))"

definition Context ::
  "(string \<Rightarrow> lib_error option) \<Rightarrow> Client \<Rightarrow> ctx option \<Rightarrow> string \<Rightarrow> any
     \<Rightarrow> ContextResponse call" where
  "Context url_Parse c ctx query tokensNum =
     (let tokensNum' = (if tokensNum = AnyNil then AnyString ''dynamic'' else tokensNum);
          reqBody = \<lparr>ContextOptions.Query = query, TokensNum = tokensNum'\<rparr>
      in case do url_Parse c ctx ''POST'' ''/context'' (Some (Body_ContextOptions reqBody))
                zero_ContextResponse (Some decode_ContextResponse) of
           (sent, Inl err) \<Rightarrow> (sent, (None, Some err))
         | (sent, Inr resp) \<Rightarrow> (sent, (Some resp, None)))"

subsection \<open>Values used by the tests and by the statements below\<close>

text \<open>The zero values \<^verbatim>\<open>SearchOptions{}\<close>, \<^verbatim>\<open>FindSimilarOptions{}\<close>, \<^verbatim>\<open>GetContentsOptions{}\<close>.\<close>

definition zero_SearchOptions :: SearchOptions where
  "zero_SearchOptions =
     \<lparr>SearchOptions.NumResults = 0, IncludeDomains = None, ExcludeDomains = None,
      StartCrawlDate = [], EndCrawlDate = [], StartPublishedDate = [], EndPublishedDate = [],
      IncludeText = None, ExcludeText = None, Contents = None, UseAutoprompt = None,
      Type = [], Category = []\<rparr>"

definition zero_FindSimilarOptions :: FindSimilarOptions where
  "zero_FindSimilarOptions =
     \<lparr>FindSimilarOptions.NumResults = 0, IncludeDomains = None, ExcludeDomains = None,
      StartCrawlDate = [], EndCrawlDate = [], StartPublishedDate = [], EndPublishedDate = [],
      Contents = None\<rparr>"

definition zero_GetContentsOptions :: GetContentsOptions where
  "zero_GetContentsOptions =
     \<lparr>GetContentsOptions.Text = None, Highlights = None, Summary = None, LiveCrawl = []\<rparr>"

text \<open>
  The mock server of \<^verbatim>\<open>exa_test.go\<close>: an executor that answers every request with one
  status and one body.
\<close>

definition test_server :: "int \<Rightarrow> lib_error + json \<Rightarrow> http_request \<Rightarrow> lib_error + http_response" where
  "test_server status body = (\<lambda>req. Inr \<lparr>StatusCode = status, RespBody = body\<rparr>)"

text \<open>
  The response envelopes on the wire, as the mock server writes them with
  \<^verbatim>\<open>json.NewEncoder(w).Encode(resp)\<close>: every field under its JSON name, \<^verbatim>\<open>image\<close> and
  \<^verbatim>\<open>favicon\<close> only when not empty, a nil slice as \<^verbatim>\<open>null\<close>. The score is written as
  some literal \<open>lit x\<close> that reads back as \<open>x\<close>.
\<close>

definition wire_strings :: "string list option \<Rightarrow> json" where
  "wire_strings xs = (case xs of None \<Rightarrow> JNull | Some l \<Rightarrow> JArray (map JString l))"

definition wire_omitempty :: "string \<Rightarrow> string \<Rightarrow> (string \<times> json) list" where
  "wire_omitempty name s = (if s = [] then [] else [(name, JString s)])"

definition wire_Result :: "(64 word \<Rightarrow> string) \<Rightarrow> Result \<Rightarrow> json" where
  "wire_Result lit r =
     JObject ([(''id'', JString (ID r)),
               (''url'', JString (Result.URL r)),
               (''title'', JString (Title r)),
               (''author'', JString (Author r)),
               (''publishedDate'', JString (PublishedDate r)),
               (''text'', JString (Result.Text r)),
               (''highlights'', wire_strings (Result.Highlights r)),
               (''summary'', JString (Result.Summary r)),
               (''score'', JNumber (lit (Score r)) (Some (Score r)))]
              @ wire_omitempty ''image'' (Image r)
              @ wire_omitempty ''favicon'' (Favicon r))"

definition wire_Results :: "(64 word \<Rightarrow> string) \<Rightarrow> Result list option \<Rightarrow> json" where
  "wire_Results lit rs = (case rs of None \<Rightarrow> JNull | Some l \<Rightarrow> JArray (map (wire_Result lit) l))"

definition wire_SearchResponse :: "(64 word \<Rightarrow> string) \<Rightarrow> SearchResponse \<Rightarrow> json" where
  "wire_SearchResponse lit r =
     JObject [(''results'', wire_Results lit (SearchResponse.Results r)),
              (''requestId'', JString (SearchResponse.RequestID r))]"

definition wire_answerResponse :: "(64 word \<Rightarrow> string) \<Rightarrow> answerResponse \<Rightarrow> json" where
  "wire_answerResponse lit r =
     JObject [(''answer'', JString (answerResponse.Answer r)),
              (''citations'', wire_Results lit (answerResponse.Citations r)),
              (''requestId'', JString (answerResponse.RequestID r))]"

text \<open>
  The kinds of error, by the place of \<^verbatim>\<open>do\<close> that makes them. The specification's
  taxonomy has four: serialization, transport, API and decode errors.
\<close>

definition has_prefix :: "string \<Rightarrow> string \<Rightarrow> bool" where
  "has_prefix p s = (take (length p) s = p)"

definition is_SerializationError :: "error \<Rightarrow> bool" where
  "is_SerializationError e = has_prefix ''failed to marshal request body: '' (Error_text e)"

definition is_TransportError :: "error \<Rightarrow> bool" where
  "is_TransportError e = has_prefix ''failed to execute request: '' (Error_text e)"

definition is_ApiError :: "error \<Rightarrow> bool" where
  "is_ApiError e =
     (has_prefix ''api error: '' (Error_text e)
      \<or> has_prefix ''api request failed with status '' (Error_text e))"

definition is_DecodeError :: "error \<Rightarrow> bool" where
  "is_DecodeError e = has_prefix ''failed to decode response: '' (Error_text e)"

definition in_taxonomy :: "error \<Rightarrow> bool" where
  "in_taxonomy e =
     (is_SerializationError e \<or> is_TransportError e \<or> is_ApiError e \<or> is_DecodeError e)"

definition is_RequestError :: "error \<Rightarrow> bool" where
  "is_RequestError e = has_prefix ''failed to create request: '' (Error_text e)"

subsection \<open>The steps of \<^verbatim>\<open>do\<close>, named\<close>

text \<open>
  The three blocks of \<^verbatim>\<open>do\<close> around the call of the executor (lines 336 to 343, 350 to
  352 and 360 to 376 of \<^verbatim>\<open>exa.go\<close>), as functions of their own; \<open>do_unfold\<close> below
  shows that \<^verbatim>\<open>do\<close> is their composition.
\<close>

definition marshal_body :: "body option \<Rightarrow> lib_error + string option" where
  "marshal_body b =
     (case b of
        None \<Rightarrow> Inr None
      | Some x \<Rightarrow>
          (case json_Marshal x of
             Inl err \<Rightarrow> Inl err
           | Inr jsonBody \<Rightarrow> Inr (Some jsonBody)))"

definition set_headers :: "Client \<Rightarrow> http_request \<Rightarrow> http_request" where
  "set_headers c req0 =
     req0\<lparr>Header :=
            Header_Set
              (Header_Set
                 (Header_Set (Header req0) ''Content-Type'' ''application/json'')
                 ''x-api-key'' (apiKey c))
              ''User-Agent'' ''exa-go-client/1.0''\<rparr>"

definition handle :: "http_response \<Rightarrow> 'r \<Rightarrow> 'r decoder option \<Rightarrow> error + 'r" where
  "handle resp dst result =
     (if StatusCode resp \<ge> 400
      then (case Decode (RespBody resp) zero_errResp decode_errResp of
              Inl err \<Rightarrow>
                Inl (Error (''api request failed with status '' @ itoa (StatusCode resp)) None)
            | Inr errResp \<Rightarrow>
                Inl (Error (''api error: '' @ Message errResp @ '' (status ''
                            @ itoa (StatusCode resp) @ '')'') None))
      else (case result of
              None \<Rightarrow> Inr dst
            | Some dec \<Rightarrow>
                (case Decode (RespBody resp) dst dec of
                   Inl err \<Rightarrow> Inl (Errorf_w ''failed to decode response: '' err)
                 | Inr v \<Rightarrow> Inr v)))"

text \<open>
  What an operation returns from the outcome of \<^verbatim>\<open>do\<close>: \<^verbatim>\<open>return nil, err\<close> or
  \<^verbatim>\<open>return &resp, nil\<close>.
\<close>

definition returned :: "error + 'r \<Rightarrow> 'r option \<times> error option" where
  "returned r = (case r of Inl err \<Rightarrow> (None, Some err) | Inr resp \<Rightarrow> (Some resp, None))"

text \<open>The call failed with an error of the given text and no wrapped cause.\<close>

definition failed :: "string \<Rightarrow> 'r option \<times> error option" where
  "failed text = (None, Some (Error text None))"

text \<open>The executor of the client answered one of the requests sent with \<open>resp\<close>.\<close>

definition answered :: "Client \<Rightarrow> http_request list \<Rightarrow> http_response \<Rightarrow> bool" where
  "answered c sent resp = list_ex (\<lambda>req. Do (httpClient c) req = Inr resp) sent"

text \<open>The members of an object that the decoder matches with the field of a JSON name.\<close>

definition members_named :: "string \<Rightarrow> (string \<times> json) list \<Rightarrow> (string \<times> json) list" where
  "members_named name ms = filter (\<lambda>m. foldName (fst m) = foldName name) ms"

text \<open>The reshaping at the end of \<^verbatim>\<open>Answer\<close> (lines 309 to 313).\<close>

definition reshape :: "answerResponse \<Rightarrow> AnswerResponse" where
  "reshape resp =
     \<lparr>AnswerResponse.Answer = answerResponse.Answer resp,
      Citations = answerResponse.Citations resp,
      RequestID = answerResponse.RequestID resp\<rparr>"

text \<open>
  The fixtures of \<^verbatim>\<open>exa_test.go\<close>: a client built with
  \<^verbatim>\<open>New("test-key", WithBaseURL(server.URL))\<close> against the mock server,
  \<^verbatim>\<open>context.Background()\<close>, and a URL parser that accepts every URL.
\<close>

definition test_client :: "int \<Rightarrow> lib_error + json \<Rightarrow> Client" where
  "test_client status body =
     New (test_server status body) ''test-key'' [WithBaseURL ''http://127.0.0.1:8080'']"

definition Background :: "ctx option" where
  "Background = Some (Ctx_id 0)"

definition any_url :: "string \<Rightarrow> lib_error option" where
  "any_url u = None"

text \<open>
  What the specification asks of every request of an operation on the resource \<open>path\<close>:
  the method \<^verbatim>\<open>POST\<close>, the URL \<^verbatim>\<open>{baseURL}{path}\<close>, the key under \<^verbatim>\<open>x-api-key\<close>, the
  content type and the fixed user agent.
\<close>

definition conforms :: "Client \<Rightarrow> string \<Rightarrow> http_request \<Rightarrow> bool" where
  "conforms c path req =
     (Method req = ''POST''
      \<and> http_request.URL req = baseURL c @ path
      \<and> Header_Get (Header req) ''x-api-key'' = Some (apiKey c)
      \<and> Header_Get (Header req) ''Content-Type'' = Some ''application/json''
      \<and> Header_Get (Header req) ''User-Agent'' = Some ''exa-go-client/1.0'')"

text \<open>The JSON names that a struct writes.\<close>

definition keys :: "member list \<Rightarrow> string list" where
  "keys ms = map fst (present ms)"

text \<open>
  The responses of \<^verbatim>\<open>TestSearch\<close> and \<^verbatim>\<open>TestAnswer\<close>; their scores are 0, written \<^verbatim>\<open>0\<close>.
\<close>

definition test_literal :: "64 word \<Rightarrow> string" where
  "test_literal x = ''0''"

definition test_SearchResponse :: SearchResponse where
  "test_SearchResponse =
     \<lparr>SearchResponse.Results =
        Some [zero_Result\<lparr>ID := ''1'', Result.URL := ''https://example.com'',
                          Title := ''Example''\<rparr>],
      RequestID = ''test-req-id''\<rparr>"

definition test_answerResponse :: answerResponse where
  "test_answerResponse =
     \<lparr>answerResponse.Answer = ''The answer is 42'',
      Citations = Some [zero_Result\<lparr>Result.URL := ''https://hitchhikers.guide'',
                                    Title := ''Hitchhiker's Guide''\<rparr>],
      RequestID = ''ans-id''\<rparr>"

subsection \<open>The response schemas of the specification\<close>

text \<open>
  The success bodies of section 6 of the specification, read from a JSON document:
  \<open>schema_T j\<close> is the value of type \<open>T\<close> that the document \<open>j\<close> denotes when it matches the
  schema of \<open>T\<close>, and \<open>None\<close> when it does not. An object matches when each key of the
  schema occurs at most once in it (a key is recognised as the decoder recognises it,
  ignoring case) and holds a value of the kind the schema gives; a key that is missing
  or holds \<^verbatim>\<open>null\<close> stands for the zero value, and members under other keys are ignored.
  These definitions follow the specification, not the decoder; the lemmas
  \<open>decode_SearchResponse_schema\<close> and \<open>decode_answerResponse_schema\<close> compare the two.
\<close>

definition member :: "string \<Rightarrow> (string \<times> json) list \<Rightarrow> json option" where
  "member name ms =
     (case members_named name ms of
        [] \<Rightarrow> Some JNull
      | [m] \<Rightarrow> Some (snd m)
      | _ \<Rightarrow> None)"

definition as_string :: "json \<Rightarrow> string option" where
  "as_string j = (case j of JString s \<Rightarrow> Some s | JNull \<Rightarrow> Some [] | _ \<Rightarrow> None)"

definition as_float64 :: "json \<Rightarrow> 64 word option" where
  "as_float64 j = (case j of JNumber lit f \<Rightarrow> f | JNull \<Rightarrow> Some 0 | _ \<Rightarrow> None)"

definition as_strings :: "json \<Rightarrow> string list option option" where
  "as_strings j =
     (case j of
        JNull \<Rightarrow> Some None
      | JArray js \<Rightarrow> map_option Some (those (map as_string js))
      | _ \<Rightarrow> None)"

definition schema_Result :: "json \<Rightarrow> Result option" where
  "schema_Result j =
     (case j of
        JObject ms \<Rightarrow>
          Option.bind (Option.bind (member ''id'' ms) as_string) (\<lambda>id'.
          Option.bind (Option.bind (member ''url'' ms) as_string) (\<lambda>url.
          Option.bind (Option.bind (member ''title'' ms) as_string) (\<lambda>title.
          Option.bind (Option.bind (member ''author'' ms) as_string) (\<lambda>author.
          Option.bind (Option.bind (member ''publishedDate'' ms) as_string) (\<lambda>published.
          Option.bind (Option.bind (member ''text'' ms) as_string) (\<lambda>text.
          Option.bind (Option.bind (member ''highlights'' ms) as_strings) (\<lambda>highlights.
          Option.bind (Option.bind (member ''summary'' ms) as_string) (\<lambda>summary.
          Option.bind (Option.bind (member ''score'' ms) as_float64) (\<lambda>score.
          Option.bind (Option.bind (member ''image'' ms) as_string) (\<lambda>image.
          Option.bind (Option.bind (member ''favicon'' ms) as_string) (\<lambda>favicon.
            Some \<lparr>ID = id', URL = url, Title = title, Author = author,
                  PublishedDate = published, Text = text, Highlights = highlights,
                  Summary = summary, Score = score, Image = image,
                  Favicon = favicon\<rparr>)))))))))))
      | _ \<Rightarrow> None)"

definition schema_Results :: "json \<Rightarrow> Result list option option" where
  "schema_Results j =
     (case j of
        JNull \<Rightarrow> Some None
      | JArray js \<Rightarrow> map_option Some (those (map schema_Result js))
      | _ \<Rightarrow> None)"

definition schema_SearchResponse :: "json \<Rightarrow> SearchResponse option" where
  "schema_SearchResponse j =
     (case j of
        JObject ms \<Rightarrow>
          Option.bind (Option.bind (member ''results'' ms) schema_Results) (\<lambda>results.
          Option.bind (Option.bind (member ''requestId'' ms) as_string) (\<lambda>requestId.
            Some \<lparr>SearchResponse.Results = results, RequestID = requestId\<rparr>))
      | _ \<Rightarrow> None)"

definition schema_answerResponse :: "json \<Rightarrow> answerResponse option" where
  "schema_answerResponse j =
     (case j of
        JObject ms \<Rightarrow>
          Option.bind (Option.bind (member ''answer'' ms) as_string) (\<lambda>answer.
          Option.bind (Option.bind (member ''citations'' ms) schema_Results) (\<lambda>citations.
          Option.bind (Option.bind (member ''requestId'' ms) as_string) (\<lambda>requestId.
            Some \<lparr>answerResponse.Answer = answer, Citations = citations,
                  RequestID = requestId\<rparr>)))
      | _ \<Rightarrow> None)"

text \<open>No two fields of a struct have names that differ only by case.\<close>

definition fold_distinct :: "'a field list \<Rightarrow> bool" where
  "fold_distinct fs = distinct (map (foldName \<circ> fst) fs)"

text \<open>
  A response as the service sends it: the request identifier first, members the client
  does not know, and results that leave most fields out.
\<close>

definition sample_body :: json where
  "sample_body =
     JObject [(''requestId'', JString ''b5947044c4b78efa9552a7c89b306d95''),
              (''resolvedSearchType'', JString ''neural''),
              (''results'',
               JArray [JObject [(''score'', JNumber ''0.5'' (Some 0x3FE0000000000000)),
                               (''title'', JString ''Example''),
                               (''id'', JString ''https://example.com''),
                               (''url'', JString ''https://example.com''),
                               (''highlights'', JArray [JString ''an example'']),
                               (''highlightScores'', JArray [JNumber ''0.4'' None])]]),
              (''costDollars'', JObject [(''total'', JNumber ''0.005'' None)])]"

definition sample_SearchResponse :: SearchResponse where
  "sample_SearchResponse =
     \<lparr>SearchResponse.Results =
        Some [zero_Result\<lparr>ID := ''https://example.com'', Result.URL := ''https://example.com'',
                          Title := ''Example'', Result.Highlights := Some [''an example''],
                          Score := 0x3FE0000000000000\<rparr>],
      RequestID = ''b5947044c4b78efa9552a7c89b306d95''\<rparr>"

section \<open>Properties\<close>

lemma apply_opts_append: "apply_opts (xs @ ys) c = apply_opts ys (apply_opts xs c)"
  by (induction xs arbitrary: c) simp_all

text \<open>
  C9. Construction is a total function of the key and the options, with no error result:
  for every key (the empty one too) and no option, the client holds the key, the
  production base URL and an executor with a 30-second timeout; after any options, a
  final \<^verbatim>\<open>WithBaseURL\<close> sets the base URL and a final \<^verbatim>\<open>WithHTTPClient\<close> sets the
  executor, leaving the rest as the earlier options made it.
\<close>

theorem New_defaults_and_overrides:
  "New net k [] = \<lparr>apiKey = k, baseURL = ''https://api.exa.ai'',
                   httpClient = \<lparr>Timeout = 30000000000, Do = net\<rparr>\<rparr>
   \<and> New net [] [] = \<lparr>apiKey = [], baseURL = ''https://api.exa.ai'',
                   httpClient = \<lparr>Timeout = 30000000000, Do = net\<rparr>\<rparr>
   \<and> New net k (opts @ [WithBaseURL u]) = (New net k opts)\<lparr>baseURL := u\<rparr>
   \<and> New net k (opts @ [WithHTTPClient h]) = (New net k opts)\<lparr>httpClient := h\<rparr>"
  by (simp add: New_def apply_opts_append WithBaseURL_def WithHTTPClient_def
      baseURL_const_def Second_def)

subsection \<open>The dispatcher, step by step\<close>


lemma do_unfold:
  "do up c ctx m p b dst res =
     (case marshal_body b of
        Inl err \<Rightarrow> ([], Inl (Errorf_w ''failed to marshal request body: '' err))
      | Inr bodyReader \<Rightarrow>
          (case NewRequestWithContext up ctx m (baseURL c @ p) bodyReader of
             Inl err \<Rightarrow> ([], Inl (Errorf_w ''failed to create request: '' err))
           | Inr req0 \<Rightarrow>
               ([set_headers c req0],
                case Do (httpClient c) (set_headers c req0) of
                  Inl err \<Rightarrow> Inl (Errorf_w ''failed to execute request: '' err)
                | Inr resp \<Rightarrow> handle resp dst res)))"
  unfolding do_def marshal_body_def set_headers_def handle_def Let_def
  by (simp split: sum.split option.split)

lemma do_answered:
  assumes "answered c (fst (do up c ctx m p b dst res)) resp"
  shows "snd (do up c ctx m p b dst res) = handle resp dst res"
proof (cases "marshal_body b")
  case (Inl err)
  with assms show ?thesis by (simp add: do_unfold answered_def)
next
  case (Inr bodyReader)
  note mb = this
  show ?thesis
  proof (cases "NewRequestWithContext up ctx m (baseURL c @ p) bodyReader")
    case (Inl err)
    with assms mb show ?thesis by (simp add: do_unfold answered_def)
  next
    case (Inr req0)
    with assms mb show ?thesis by (simp add: do_unfold answered_def)
  qed
qed

lemma Search_unfold:
  "Search up c ctx q opts =
     (fst (do up c ctx ''POST'' ''/search''
             (Some (Body_searchRequest \<lparr>searchRequest.Query = q, SearchOptions = opts\<rparr>))
             zero_SearchResponse (Some decode_SearchResponse)),
      returned (snd (do up c ctx ''POST'' ''/search''
             (Some (Body_searchRequest \<lparr>searchRequest.Query = q, SearchOptions = opts\<rparr>))
             zero_SearchResponse (Some decode_SearchResponse))))"
  by (simp add: Search_def returned_def Let_def split: prod.split sum.split)

lemma FindSimilar_unfold:
  "FindSimilar up c ctx u opts =
     (fst (do up c ctx ''POST'' ''/findSimilar''
             (Some (Body_findSimilarRequest \<lparr>findSimilarRequest.URL = u, FindSimilarOptions = opts\<rparr>))
             zero_SearchResponse (Some decode_SearchResponse)),
      returned (snd (do up c ctx ''POST'' ''/findSimilar''
             (Some (Body_findSimilarRequest \<lparr>findSimilarRequest.URL = u, FindSimilarOptions = opts\<rparr>))
             zero_SearchResponse (Some decode_SearchResponse))))"
  by (simp add: FindSimilar_def returned_def Let_def split: prod.split sum.split)

lemma GetContents_unfold:
  "GetContents up c ctx ids opts =
     (fst (do up c ctx ''POST'' ''/contents''
             (Some (Body_getContentsRequest \<lparr>IDs = ids, GetContentsOptions = opts\<rparr>))
             zero_GetContentsResponse (Some decode_GetContentsResponse)),
      returned (snd (do up c ctx ''POST'' ''/contents''
             (Some (Body_getContentsRequest \<lparr>IDs = ids, GetContentsOptions = opts\<rparr>))
             zero_GetContentsResponse (Some decode_GetContentsResponse))))"
  by (simp add: GetContents_def returned_def Let_def split: prod.split sum.split)

lemma Answer_unfold:
  "Answer up c ctx q =
     (fst (do up c ctx ''POST'' ''/answer''
             (Some (Body_AnswerOptions \<lparr>AnswerOptions.Query = q, Text = True\<rparr>))
             zero_answerResponse (Some decode_answerResponse)),
      returned (map_sum id reshape (snd (do up c ctx ''POST'' ''/answer''
             (Some (Body_AnswerOptions \<lparr>AnswerOptions.Query = q, Text = True\<rparr>))
             zero_answerResponse (Some decode_answerResponse)))))"
  by (simp add: Answer_def returned_def reshape_def Let_def split: prod.split sum.split)

lemma Context_unfold:
  "Context up c ctx q t =
     (fst (do up c ctx ''POST'' ''/context''
             (Some (Body_ContextOptions \<lparr>ContextOptions.Query = q,
                TokensNum = (if t = AnyNil then AnyString ''dynamic'' else t)\<rparr>))
             zero_ContextResponse (Some decode_ContextResponse)),
      returned (snd (do up c ctx ''POST'' ''/context''
             (Some (Body_ContextOptions \<lparr>ContextOptions.Query = q,
                TokensNum = (if t = AnyNil then AnyString ''dynamic'' else t)\<rparr>))
             zero_ContextResponse (Some decode_ContextResponse))))"
  by (simp add: Context_def returned_def Let_def split: prod.split sum.split)

lemma foldName_message: "foldName ''message'' = ''MESSAGE''"
  by code_simp

lemma members_named_message:
  "members_named ''message'' ms = filter (\<lambda>m. foldName (fst m) = ''MESSAGE'') ms"
  by (simp only: members_named_def foldName_message)

lemma find_field_errResp:
  "find_field fields_errResp k =
     (if foldName k = ''MESSAGE'' then Some (''message'', into Message (\<lambda>x r. r\<lparr>Message := x\<rparr>) decode_string) else None)"
  using foldName_message by (auto simp: find_field_def fields_errResp_def)

lemma decode_members_errResp_none:
  "members_named ''message'' ms = [] \<Longrightarrow> decode_members s fields_errResp ms v = Inr v"
  by (induction ms arbitrary: v)
     (auto simp: members_named_message find_field_errResp split: if_splits)

lemma decode_members_errResp_one:
  "members_named ''message'' ms = [(k, JString msg)] \<Longrightarrow>
   decode_members s fields_errResp ms v = Inr \<lparr>Message = msg\<rparr>"
proof (induction ms arbitrary: v)
  case Nil
  then show ?case by (simp add: members_named_message)
next
  case (Cons m ms)
  show ?case
  proof (cases "foldName (fst m) = ''MESSAGE''")
    case True
    with Cons.prems have m: "m = (k, JString msg)" and rest: "members_named ''message'' ms = []"
      by (simp_all add: members_named_message)
    have "v\<lparr>Message := msg\<rparr> = \<lparr>Message = msg\<rparr>" by (cases v) simp
    with True m rest show ?thesis
      by (simp add: find_field_errResp into_def decode_members_errResp_none)
  next
    case False
    with Cons.prems have "members_named ''message'' ms = [(k, JString msg)]"
      by (simp add: members_named_message)
    with False Cons.IH show ?thesis by (simp add: find_field_errResp)
  qed
qed

lemma handle_undecodable:
  assumes "400 \<le> StatusCode resp"
    and "RespBody resp = Inl e \<or> (RespBody resp = Inr j \<and> kind j \<notin> {''object'', ''null''})"
  shows "handle resp dst res = Inl (Error (''api request failed with status '' @ itoa (StatusCode resp)) None)"
  using assms
  by (cases j) (auto simp: handle_def Decode_def decode_errResp_def decode_struct_def mismatch_def)

lemma handle_messageless:
  assumes "400 \<le> StatusCode resp"
    and "RespBody resp = Inr (JObject ms)" "members_named ''message'' ms = []"
  shows "handle resp dst res = Inl (Error (''api error: '' @ '' (status '' @ itoa (StatusCode resp) @ '')'') None)"
  using assms
  by (simp add: handle_def Decode_def decode_errResp_def decode_struct_def
      decode_members_errResp_none zero_errResp_def)

lemma handle_message:
  assumes "400 \<le> StatusCode resp"
    and "RespBody resp = Inr (JObject ms)" "members_named ''message'' ms = [(k, JString msg)]"
  shows "handle resp dst res = Inl (Error (''api error: '' @ msg @ '' (status '' @ itoa (StatusCode resp) @ '')'') None)"
  using assms
  by (simp add: handle_def Decode_def decode_errResp_def decode_struct_def
      decode_members_errResp_one)

lemma returned_Error: "returned (Inl (Error t None)) = failed t"
  by (simp add: returned_def failed_def)

lemma returned_Error': "returned (map_sum id f (Inl (Error t None))) = failed t"
  by (simp add: returned_def failed_def)

lemmas op_unfold = Search_unfold FindSimilar_unfold GetContents_unfold Answer_unfold Context_unfold

subsection \<open>Error normalisation\<close>

text \<open>
  C2. For every operation, when the executor answers the request with a status of 400 or
  more and a JSON object holding one \<^verbatim>\<open>message\<close> member (its key matched as the decoder
  matches it) whose value is a string \<open>msg\<close>, the operation returns no result and an
  error whose text is exactly \<^verbatim>\<open>api error: <msg> (status <code>)\<close>.
\<close>

theorem api_error_message:
  assumes "400 \<le> StatusCode resp"
    and "RespBody resp = Inr (JObject ms)"
    and "members_named ''message'' ms = [(k, JString msg)]"
  shows "(answered c (fst (Search up c ctx q so)) resp \<longrightarrow>
            snd (Search up c ctx q so)
              = failed (''api error: '' @ msg @ '' (status '' @ itoa (StatusCode resp) @ '')''))
       \<and> (answered c (fst (FindSimilar up c ctx u fo)) resp \<longrightarrow>
            snd (FindSimilar up c ctx u fo)
              = failed (''api error: '' @ msg @ '' (status '' @ itoa (StatusCode resp) @ '')''))
       \<and> (answered c (fst (GetContents up c ctx ids go)) resp \<longrightarrow>
            snd (GetContents up c ctx ids go)
              = failed (''api error: '' @ msg @ '' (status '' @ itoa (StatusCode resp) @ '')''))
       \<and> (answered c (fst (Answer up c ctx q')) resp \<longrightarrow>
            snd (Answer up c ctx q')
              = failed (''api error: '' @ msg @ '' (status '' @ itoa (StatusCode resp) @ '')''))
       \<and> (answered c (fst (Context up c ctx q'' t)) resp \<longrightarrow>
            snd (Context up c ctx q'' t)
              = failed (''api error: '' @ msg @ '' (status '' @ itoa (StatusCode resp) @ '')''))"
  by (simp add: op_unfold do_answered handle_message [OF assms] returned_Error returned_Error')

theorem api_error_message_witness:
  "snd (Search any_url
          (test_client 400 (Inr (JObject [(''message'', JString ''invalid request'')])))
          Background ''query'' zero_SearchOptions)
     = failed ''api error: invalid request (status 400)''
   \<and> snd (FindSimilar any_url
          (test_client 400 (Inr (JObject [(''message'', JString ''invalid request'')])))
          Background ''https://example.com'' zero_FindSimilarOptions)
     = failed ''api error: invalid request (status 400)''
   \<and> snd (GetContents any_url
          (test_client 400 (Inr (JObject [(''message'', JString ''invalid request'')])))
          Background (Some [''https://example.com'']) zero_GetContentsOptions)
     = failed ''api error: invalid request (status 400)''
   \<and> snd (Answer any_url
          (test_client 400 (Inr (JObject [(''message'', JString ''invalid request'')])))
          Background ''query'')
     = failed ''api error: invalid request (status 400)''
   \<and> snd (Context any_url
          (test_client 400 (Inr (JObject [(''message'', JString ''invalid request'')])))
          Background ''query'' AnyNil)
     = failed ''api error: invalid request (status 400)''"
proof -
  let ?ms = "[(''message'', JString ''invalid request'')]"
  let ?resp = "\<lparr>StatusCode = 400, RespBody = Inr (JObject ?ms)\<rparr>"
  let ?c = "test_client 400 (Inr (JObject ?ms))"
  have st: "400 \<le> StatusCode ?resp" by simp
  have bd: "RespBody ?resp = Inr (JObject ?ms)" by simp
  have ms: "members_named ''message'' ?ms = [(''message'', JString ''invalid request'')]"
    by code_simp
  have a1: "answered ?c (fst (Search any_url ?c Background ''query'' zero_SearchOptions)) ?resp"
    by code_simp
  have a2: "answered ?c (fst (FindSimilar any_url ?c Background ''https://example.com''
                                zero_FindSimilarOptions)) ?resp"
    by code_simp
  have a3: "answered ?c (fst (GetContents any_url ?c Background (Some [''https://example.com''])
                                zero_GetContentsOptions)) ?resp"
    by code_simp
  have a4: "answered ?c (fst (Answer any_url ?c Background ''query'')) ?resp"
    by code_simp
  have a5: "answered ?c (fst (Context any_url ?c Background ''query'' AnyNil)) ?resp"
    by code_simp
  have n: "itoa 400 = ''400''" by code_simp
  from api_error_message [OF st bd ms, where c = "?c" and up = any_url and ctx = Background
      and q = "''query''" and so = zero_SearchOptions
      and u = "''https://example.com''" and fo = zero_FindSimilarOptions
      and ids = "Some [''https://example.com'']" and go = zero_GetContentsOptions
      and q' = "''query''" and q'' = "''query''" and t = AnyNil] a1 a2 a3 a4 a5 n
  show ?thesis by simp
qed

lemma decode_members_errResp_bad:
  assumes "\<exists>m \<in> set (members_named ''message'' ms). kind (snd m) \<notin> {''string'', ''null''}"
  shows "\<exists>err. decode_members s fields_errResp ms v = Inl err"
  using assms
proof (induction ms arbitrary: v)
  case Nil
  then show ?case by (simp add: members_named_message)
next
  case (Cons m ms)
  show ?case
  proof (cases "foldName (fst m) = ''MESSAGE''")
    case False
    with Cons.prems have "\<exists>m \<in> set (members_named ''message'' ms). kind (snd m) \<notin> {''string'', ''null''}"
      by (simp add: members_named_message)
    from Cons.IH [OF this] False show ?thesis by (simp add: find_field_errResp)
  next
    case True
    show ?thesis
    proof (cases "kind (snd m) \<in> {''string'', ''null''}")
      case False
      then have "\<exists>err. decode_string (snd m) (Message v) = Inl err"
        by (cases "snd m") simp_all
      with True show ?thesis by (auto simp: find_field_errResp into_def)
    next
      case good: True
      with Cons.prems True
      have rest: "\<exists>m \<in> set (members_named ''message'' ms). kind (snd m) \<notin> {''string'', ''null''}"
        by (auto simp: members_named_message)
      from good obtain x where "decode_string (snd m) (Message v) = Inr x"
        by (cases "snd m") simp_all
      with True Cons.IH [OF rest] show ?thesis by (simp add: find_field_errResp into_def)
    qed
  qed
qed

lemma handle_bad_message:
  assumes "400 \<le> StatusCode resp"
    and "RespBody resp = Inr (JObject bs)"
    and "\<exists>m \<in> set (members_named ''message'' bs). kind (snd m) \<notin> {''string'', ''null''}"
  shows "handle resp dst res
           = Inl (Error (''api request failed with status '' @ itoa (StatusCode resp)) None)"
proof -
  from decode_members_errResp_bad [OF assms(3)] obtain err where
    "decode_members [] fields_errResp bs zero_errResp = Inl err" by blast
  with assms(1,2) show ?thesis
    by (simp add: handle_def Decode_def decode_errResp_def decode_struct_def)
qed

lemma handle_null:
  assumes "400 \<le> StatusCode resp" and "RespBody resp = Inr JNull"
  shows "handle resp dst res
           = Inl (Error (''api error: '' @ '' (status '' @ itoa (StatusCode resp) @ '')'') None)"
  using assms
  by (simp add: handle_def Decode_def decode_errResp_def decode_struct_def zero_errResp_def)

lemma handle_decoding_fails:
  assumes "400 \<le> StatusCode resp"
    and "RespBody resp = Inl e
         \<or> (RespBody resp = Inr j \<and> kind j \<notin> {''object'', ''null''})
         \<or> (RespBody resp = Inr (JObject bs)
             \<and> (\<exists>m \<in> set (members_named ''message'' bs). kind (snd m) \<notin> {''string'', ''null''}))"
  shows "handle resp dst res
           = Inl (Error (''api request failed with status '' @ itoa (StatusCode resp)) None)"
  using assms(2) handle_undecodable [OF assms(1), where e = e and j = j and dst = dst and res = res]
    handle_bad_message [OF assms(1), where bs = bs and dst = dst and res = res]
  by blast

lemma handle_no_message:
  assumes "400 \<le> StatusCode resp"
    and "(RespBody resp = Inr (JObject ms) \<and> members_named ''message'' ms = [])
         \<or> RespBody resp = Inr JNull"
  shows "handle resp dst res
           = Inl (Error (''api error:  (status '' @ itoa (StatusCode resp) @ '')'') None)"
  using assms(2) handle_messageless [OF assms(1), where ms = ms and dst = dst and res = res]
    handle_null [OF assms(1), where dst = dst and res = res]
  by auto

text \<open>
  C1, as the code has it. For every operation, when the executor answers with a status of
  400 or more: if decoding the body fails (the scanner fails on it, as on an empty or
  non-JSON body; or its first value is neither an object nor \<^verbatim>\<open>null\<close>; or it is an object
  in which a member named \<^verbatim>\<open>message\<close>, names compared as the decoder compares them,
  ignoring case, holds a value that is neither a string nor \<^verbatim>\<open>null\<close>) the error text is
  exactly \<^verbatim>\<open>api request failed with status <code>\<close>; if the body is a JSON object with no
  member named \<^verbatim>\<open>message\<close> (ignoring case), or is \<^verbatim>\<open>null\<close>, decoding succeeds with an empty
  message and the error text is \<^verbatim>\<open>api error:  (status <code>)\<close>.
\<close>

theorem api_error_undecodable_or_messageless:
  assumes "400 \<le> StatusCode resp"
  shows "(RespBody resp = Inl e
          \<or> (RespBody resp = Inr j \<and> kind j \<notin> {''object'', ''null''})
          \<or> (RespBody resp = Inr (JObject bs)
              \<and> (\<exists>m \<in> set (members_named ''message'' bs). kind (snd m) \<notin> {''string'', ''null''}))
          \<longrightarrow> (answered c (fst (Search up c ctx q so)) resp \<longrightarrow>
              snd (Search up c ctx q so) = failed (''api request failed with status '' @ itoa (StatusCode resp)))
          \<and> (answered c (fst (FindSimilar up c ctx u fo)) resp \<longrightarrow>
              snd (FindSimilar up c ctx u fo) = failed (''api request failed with status '' @ itoa (StatusCode resp)))
          \<and> (answered c (fst (GetContents up c ctx ids go)) resp \<longrightarrow>
              snd (GetContents up c ctx ids go) = failed (''api request failed with status '' @ itoa (StatusCode resp)))
          \<and> (answered c (fst (Answer up c ctx q')) resp \<longrightarrow>
              snd (Answer up c ctx q') = failed (''api request failed with status '' @ itoa (StatusCode resp)))
          \<and> (answered c (fst (Context up c ctx q'' t)) resp \<longrightarrow>
              snd (Context up c ctx q'' t) = failed (''api request failed with status '' @ itoa (StatusCode resp))))
       \<and> ((RespBody resp = Inr (JObject ms) \<and> members_named ''message'' ms = [])
          \<or> RespBody resp = Inr JNull
          \<longrightarrow> (answered c (fst (Search up c ctx q so)) resp \<longrightarrow>
              snd (Search up c ctx q so) = failed (''api error:  (status '' @ itoa (StatusCode resp) @ '')''))
          \<and> (answered c (fst (FindSimilar up c ctx u fo)) resp \<longrightarrow>
              snd (FindSimilar up c ctx u fo) = failed (''api error:  (status '' @ itoa (StatusCode resp) @ '')''))
          \<and> (answered c (fst (GetContents up c ctx ids go)) resp \<longrightarrow>
              snd (GetContents up c ctx ids go) = failed (''api error:  (status '' @ itoa (StatusCode resp) @ '')''))
          \<and> (answered c (fst (Answer up c ctx q')) resp \<longrightarrow>
              snd (Answer up c ctx q') = failed (''api error:  (status '' @ itoa (StatusCode resp) @ '')''))
          \<and> (answered c (fst (Context up c ctx q'' t)) resp \<longrightarrow>
              snd (Context up c ctx q'' t) = failed (''api error:  (status '' @ itoa (StatusCode resp) @ '')'')))"
proof (intro conjI impI)
  assume b: "RespBody resp = Inl e
          \<or> (RespBody resp = Inr j \<and> kind j \<notin> {''object'', ''null''})
          \<or> (RespBody resp = Inr (JObject bs)
              \<and> (\<exists>m \<in> set (members_named ''message'' bs). kind (snd m) \<notin> {''string'', ''null''}))"
  note h = handle_decoding_fails [OF assms b]
  { assume "answered c (fst (Search up c ctx q so)) resp"
    then show "snd (Search up c ctx q so) = failed (''api request failed with status '' @ itoa (StatusCode resp))"
      by (simp add: Search_unfold do_answered h returned_Error) }
  { assume "answered c (fst (FindSimilar up c ctx u fo)) resp"
    then show "snd (FindSimilar up c ctx u fo) = failed (''api request failed with status '' @ itoa (StatusCode resp))"
      by (simp add: FindSimilar_unfold do_answered h returned_Error) }
  { assume "answered c (fst (GetContents up c ctx ids go)) resp"
    then show "snd (GetContents up c ctx ids go) = failed (''api request failed with status '' @ itoa (StatusCode resp))"
      by (simp add: GetContents_unfold do_answered h returned_Error) }
  { assume "answered c (fst (Answer up c ctx q')) resp"
    then show "snd (Answer up c ctx q') = failed (''api request failed with status '' @ itoa (StatusCode resp))"
      by (simp add: Answer_unfold do_answered h returned_Error returned_Error') }
  { assume "answered c (fst (Context up c ctx q'' t)) resp"
    then show "snd (Context up c ctx q'' t) = failed (''api request failed with status '' @ itoa (StatusCode resp))"
      by (simp add: Context_unfold do_answered h returned_Error) }
next
  assume b: "(RespBody resp = Inr (JObject ms) \<and> members_named ''message'' ms = [])
          \<or> RespBody resp = Inr JNull"
  note h = handle_no_message [OF assms b]
  { assume "answered c (fst (Search up c ctx q so)) resp"
    then show "snd (Search up c ctx q so) = failed (''api error:  (status '' @ itoa (StatusCode resp) @ '')'')"
      by (simp add: Search_unfold do_answered h returned_Error) }
  { assume "answered c (fst (FindSimilar up c ctx u fo)) resp"
    then show "snd (FindSimilar up c ctx u fo) = failed (''api error:  (status '' @ itoa (StatusCode resp) @ '')'')"
      by (simp add: FindSimilar_unfold do_answered h returned_Error) }
  { assume "answered c (fst (GetContents up c ctx ids go)) resp"
    then show "snd (GetContents up c ctx ids go) = failed (''api error:  (status '' @ itoa (StatusCode resp) @ '')'')"
      by (simp add: GetContents_unfold do_answered h returned_Error) }
  { assume "answered c (fst (Answer up c ctx q')) resp"
    then show "snd (Answer up c ctx q') = failed (''api error:  (status '' @ itoa (StatusCode resp) @ '')'')"
      by (simp add: Answer_unfold do_answered h returned_Error returned_Error') }
  { assume "answered c (fst (Context up c ctx q'' t)) resp"
    then show "snd (Context up c ctx q'' t) = failed (''api error:  (status '' @ itoa (StatusCode resp) @ '')'')"
      by (simp add: Context_unfold do_answered h returned_Error) }
qed

text \<open>
  The claim as stated fails on a message-less JSON body: status 500 with the body
  \<^verbatim>\<open>{}\<close> gives \<^verbatim>\<open>api error:  (status 500)\<close>, not \<^verbatim>\<open>api request failed with status 500\<close>.
\<close>

theorem messageless_body_counterexample:
  "Error_text (the (snd (snd (Search any_url (test_client 500 (Inr (JObject []))) Background
                                ''query'' zero_SearchOptions))))
     = ''api error:  (status 500)''
   \<and> Error_text (the (snd (snd (Search any_url (test_client 500 (Inr (JObject []))) Background
                                ''query'' zero_SearchOptions))))
     \<noteq> ''api request failed with status 500''"
  by code_simp

theorem api_error_undecodable_or_messageless_witness:
  "snd (Search any_url (test_client 500 (Inl (LibError ''EOF''))) Background ''query''
          zero_SearchOptions)
     = failed ''api request failed with status 500''
   \<and> snd (Context any_url (test_client 500 (Inl (LibError ''EOF''))) Background ''query'' AnyNil)
     = failed ''api request failed with status 500''
   \<and> snd (GetContents any_url (test_client 500 (Inr (JString ''Internal Server Error'')))
          Background None zero_GetContentsOptions)
     = failed ''api request failed with status 500''
   \<and> snd (FindSimilar any_url
          (test_client 500 (Inr (JObject [(''message'', JNumber ''5'' None)])))
          Background ''https://example.com'' zero_FindSimilarOptions)
     = failed ''api request failed with status 500''
   \<and> snd (Answer any_url (test_client 500 (Inr (JObject [(''error'', JString ''boom'')])))
          Background ''query'')
     = failed ''api error:  (status 500)''
   \<and> snd (Search any_url (test_client 500 (Inr JNull)) Background ''query'' zero_SearchOptions)
     = failed ''api error:  (status 500)''"
proof -
  let ?r1 = "\<lparr>StatusCode = 500, RespBody = Inl (LibError ''EOF'')\<rparr>"
  let ?c1 = "test_client 500 (Inl (LibError ''EOF''))"
  let ?j2 = "JString ''Internal Server Error''"
  let ?r2 = "\<lparr>StatusCode = 500, RespBody = Inr ?j2\<rparr>"
  let ?c2 = "test_client 500 (Inr ?j2)"
  let ?bs = "[(''message'', JNumber ''5'' None)]"
  let ?r3 = "\<lparr>StatusCode = 500, RespBody = Inr (JObject ?bs)\<rparr>"
  let ?c3 = "test_client 500 (Inr (JObject ?bs))"
  let ?ms = "[(''error'', JString ''boom'')]"
  let ?r4 = "\<lparr>StatusCode = 500, RespBody = Inr (JObject ?ms)\<rparr>"
  let ?c4 = "test_client 500 (Inr (JObject ?ms))"
  let ?r5 = "\<lparr>StatusCode = 500, RespBody = Inr JNull\<rparr>"
  let ?c5 = "test_client 500 (Inr JNull)"
  have s: "400 \<le> StatusCode ?r1" "400 \<le> StatusCode ?r2" "400 \<le> StatusCode ?r3"
    "400 \<le> StatusCode ?r4" "400 \<le> StatusCode ?r5" by simp_all
  have n: "itoa 500 = ''500''" by code_simp
  have b1: "RespBody ?r1 = Inl (LibError ''EOF'')
            \<or> (RespBody ?r1 = Inr JNull \<and> kind JNull \<notin> {''object'', ''null''})
            \<or> (RespBody ?r1 = Inr (JObject [])
                \<and> (\<exists>m \<in> set (members_named ''message'' []). kind (snd m) \<notin> {''string'', ''null''}))"
    by simp
  have a1: "answered ?c1 (fst (Search any_url ?c1 Background ''query'' zero_SearchOptions)) ?r1"
    by code_simp
  have a1': "answered ?c1 (fst (Context any_url ?c1 Background ''query'' AnyNil)) ?r1"
    by code_simp
  from api_error_undecodable_or_messageless [OF s(1), where c = "?c1" and up = any_url
      and ctx = Background and q = "''query''" and so = zero_SearchOptions
      and q'' = "''query''" and t = AnyNil and e = "LibError ''EOF''" and j = JNull
      and bs = "[]"] b1 a1 a1' n
  have p1: "snd (Search any_url ?c1 Background ''query'' zero_SearchOptions)
              = failed ''api request failed with status 500''
            \<and> snd (Context any_url ?c1 Background ''query'' AnyNil)
              = failed ''api request failed with status 500''"
    by simp
  have k2: "kind ?j2 \<notin> {''object'', ''null''}" by simp
  have b2: "RespBody ?r2 = Inl (LibError [])
            \<or> (RespBody ?r2 = Inr ?j2 \<and> kind ?j2 \<notin> {''object'', ''null''})
            \<or> (RespBody ?r2 = Inr (JObject [])
                \<and> (\<exists>m \<in> set (members_named ''message'' []). kind (snd m) \<notin> {''string'', ''null''}))"
    using k2 by simp
  have a2: "answered ?c2 (fst (GetContents any_url ?c2 Background None zero_GetContentsOptions))
              ?r2"
    by code_simp
  from api_error_undecodable_or_messageless [OF s(2), where c = "?c2" and up = any_url
      and ctx = Background and ids = None and go = zero_GetContentsOptions
      and e = "LibError []" and j = "?j2" and bs = "[]"] b2 a2 n
  have p2: "snd (GetContents any_url ?c2 Background None zero_GetContentsOptions)
              = failed ''api request failed with status 500''"
    by simp
  have m3: "\<exists>m \<in> set (members_named ''message'' ?bs). kind (snd m) \<notin> {''string'', ''null''}"
    by code_simp
  have b3: "RespBody ?r3 = Inl (LibError [])
            \<or> (RespBody ?r3 = Inr JNull \<and> kind JNull \<notin> {''object'', ''null''})
            \<or> (RespBody ?r3 = Inr (JObject ?bs)
                \<and> (\<exists>m \<in> set (members_named ''message'' ?bs). kind (snd m) \<notin> {''string'', ''null''}))"
    using m3 by simp
  have a3: "answered ?c3 (fst (FindSimilar any_url ?c3 Background ''https://example.com''
                                zero_FindSimilarOptions)) ?r3"
    by code_simp
  from api_error_undecodable_or_messageless [OF s(3), where c = "?c3" and up = any_url
      and ctx = Background and u = "''https://example.com''" and fo = zero_FindSimilarOptions
      and e = "LibError []" and j = JNull and bs = "?bs"] b3 a3 n
  have p3: "snd (FindSimilar any_url ?c3 Background ''https://example.com''
                   zero_FindSimilarOptions)
              = failed ''api request failed with status 500''"
    by simp
  have m4: "members_named ''message'' ?ms = []" by code_simp
  have b4: "(RespBody ?r4 = Inr (JObject ?ms) \<and> members_named ''message'' ?ms = [])
            \<or> RespBody ?r4 = Inr JNull"
    using m4 by simp
  have a4: "answered ?c4 (fst (Answer any_url ?c4 Background ''query'')) ?r4"
    by code_simp
  from api_error_undecodable_or_messageless [OF s(4), where c = "?c4" and up = any_url
      and ctx = Background and q' = "''query''" and ms = "?ms"] b4 a4 n
  have p4: "snd (Answer any_url ?c4 Background ''query'') = failed ''api error:  (status 500)''"
    by simp
  have b5: "(RespBody ?r5 = Inr (JObject []) \<and> members_named ''message'' [] = [])
            \<or> RespBody ?r5 = Inr JNull"
    by simp
  have a5: "answered ?c5 (fst (Search any_url ?c5 Background ''query'' zero_SearchOptions)) ?r5"
    by code_simp
  from api_error_undecodable_or_messageless [OF s(5), where c = "?c5" and up = any_url
      and ctx = Background and q = "''query''" and so = zero_SearchOptions and ms = "[]"]
    b5 a5 n
  have p5: "snd (Search any_url ?c5 Background ''query'' zero_SearchOptions)
              = failed ''api error:  (status 500)''"
    by simp
  from p1 p2 p3 p4 p5 show ?thesis by simp
qed

subsection \<open>The request sent\<close>


lemma NewRequestWithContext_Inr:
  assumes "NewRequestWithContext up ctx m url body = Inr req0"
  shows "Method req0 = (if m = [] then ''GET'' else m) \<and> http_request.URL req0 = url
         \<and> Header req0 = [] \<and> Body req0 = body \<and> ctx = Some (Ctx req0)"
  using assms
  by (auto simp: NewRequestWithContext_def Let_def split: if_splits option.splits)

lemma do_sent:
  assumes "req \<in> set (fst (do up c ctx m p b dst res))"
  shows "\<exists>bodyReader req0. marshal_body b = Inr bodyReader
           \<and> NewRequestWithContext up ctx m (baseURL c @ p) bodyReader = Inr req0
           \<and> req = set_headers c req0"
proof (cases "marshal_body b")
  case (Inl err)
  with assms show ?thesis by (simp add: do_unfold)
next
  case (Inr bodyReader)
  note mb = this
  show ?thesis
  proof (cases "NewRequestWithContext up ctx m (baseURL c @ p) bodyReader")
    case (Inl err)
    with assms mb show ?thesis by (simp add: do_unfold)
  next
    case (Inr req0)
    with assms mb show ?thesis by (simp add: do_unfold)
  qed
qed

lemma do_sent_request:
  assumes "req \<in> set (fst (do up c ctx m p (Some b) dst res))"
  shows "Method req = (if m = [] then ''GET'' else m)
       \<and> http_request.URL req = baseURL c @ p
       \<and> Header req = [(''Content-Type'', ''application/json''), (''x-api-key'', apiKey c),
                        (''User-Agent'', ''exa-go-client/1.0'')]
       \<and> json_Marshal b = Inr (the (Body req)) \<and> Body req \<noteq> None"
proof -
  from do_sent [OF assms] obtain bodyReader req0 where
    mb: "marshal_body (Some b) = Inr bodyReader"
    and nr: "NewRequestWithContext up ctx m (baseURL c @ p) bodyReader = Inr req0"
    and req: "req = set_headers c req0" by blast
  from mb obtain s where s: "json_Marshal b = Inr s" "bodyReader = Some s"
    by (auto simp: marshal_body_def split: sum.splits)
  from NewRequestWithContext_Inr [OF nr] s req show ?thesis
    by (simp add: set_headers_def)
qed

lemma do_sent_conforms:
  assumes "req \<in> set (fst (do up c ctx ''POST'' p (Some b) dst res))"
  shows "conforms c p req"
  using do_sent_request [OF assms] by (simp add: conforms_def Header_Get_def)


lemma appendString_dynamic: \<open>appendString ''dynamic'' = ''"dynamic"''\<close>
  by code_simp

lemma Marshal_ContextOptions_dynamic:
  \<open>json_Marshal (Body_ContextOptions \<lparr>ContextOptions.Query = q, TokensNum = AnyString ''dynamic''\<rparr>)
     = Inr (''{"query":'' @ appendString q @ '',"tokensNum":"dynamic"}'')\<close>
  by (simp add: fields_ContextOptions_def any_omitempty_def write_struct_def present_def
      string_field_def write_member_def List.map_filter_simps appendString_dynamic dq_def)

lemma Marshal_AnswerOptions:
  \<open>json_Marshal (Body_AnswerOptions \<lparr>AnswerOptions.Query = q, Text = True\<rparr>)
     = Inr (''{"query":'' @ appendString q @ '',"text":true}'')\<close>
  by (simp add: fields_AnswerOptions_def bool_omitempty_def write_struct_def present_def
      string_field_def write_member_def List.map_filter_simps dq_def)

lemma do_sent_body:
  assumes "req \<in> set (fst (do up c ctx m p (Some b) dst res))" "json_Marshal b = Inr s"
  shows "Body req = Some s"
  using do_sent_request [OF assms(1)] assms(2) by auto

text \<open>
  C5. Every request that any of the five operations hands to the executor has the method
  \<^verbatim>\<open>POST\<close>, the URL \<^verbatim>\<open>baseURL + path\<close> of its resource, the header \<^verbatim>\<open>x-api-key\<close> equal to
  the client's key, \<^verbatim>\<open>Content-Type: application/json\<close> and the user agent
  \<^verbatim>\<open>exa-go-client/1.0\<close>.
\<close>

theorem requests_conform:
  "(\<forall>req \<in> set (fst (Search up c ctx q so)). conforms c ''/search'' req)
   \<and> (\<forall>req \<in> set (fst (FindSimilar up c ctx u fo)). conforms c ''/findSimilar'' req)
   \<and> (\<forall>req \<in> set (fst (GetContents up c ctx ids go)). conforms c ''/contents'' req)
   \<and> (\<forall>req \<in> set (fst (Answer up c ctx q')). conforms c ''/answer'' req)
   \<and> (\<forall>req \<in> set (fst (Context up c ctx q'' t)). conforms c ''/context'' req)"
  by (simp add: op_unfold do_sent_conforms)

theorem requests_conform_witness:
  "fst (Search any_url (test_client 200 (Inr JNull)) Background ''q'' zero_SearchOptions) \<noteq> []
   \<and> conforms (test_client 200 (Inr JNull)) ''/search''
        (hd (fst (Search any_url (test_client 200 (Inr JNull)) Background ''q''
                    zero_SearchOptions)))
   \<and> fst (FindSimilar any_url (test_client 200 (Inr JNull)) Background ''u''
            zero_FindSimilarOptions) \<noteq> []
   \<and> conforms (test_client 200 (Inr JNull)) ''/findSimilar''
        (hd (fst (FindSimilar any_url (test_client 200 (Inr JNull)) Background ''u''
                    zero_FindSimilarOptions)))
   \<and> fst (GetContents any_url (test_client 200 (Inr JNull)) Background None
            zero_GetContentsOptions) \<noteq> []
   \<and> conforms (test_client 200 (Inr JNull)) ''/contents''
        (hd (fst (GetContents any_url (test_client 200 (Inr JNull)) Background None
                    zero_GetContentsOptions)))
   \<and> fst (Answer any_url (test_client 200 (Inr JNull)) Background ''q'') \<noteq> []
   \<and> conforms (test_client 200 (Inr JNull)) ''/answer''
        (hd (fst (Answer any_url (test_client 200 (Inr JNull)) Background ''q'')))
   \<and> fst (Context any_url (test_client 200 (Inr JNull)) Background ''q'' AnyNil) \<noteq> []
   \<and> conforms (test_client 200 (Inr JNull)) ''/context''
        (hd (fst (Context any_url (test_client 200 (Inr JNull)) Background ''q'' AnyNil)))"
proof -
  let ?c = "test_client 200 (Inr JNull)"
  have n1: "fst (Search any_url ?c Background ''q'' zero_SearchOptions) \<noteq> []" by code_simp
  have n2: "fst (FindSimilar any_url ?c Background ''u'' zero_FindSimilarOptions) \<noteq> []"
    by code_simp
  have n3: "fst (GetContents any_url ?c Background None zero_GetContentsOptions) \<noteq> []"
    by code_simp
  have n4: "fst (Answer any_url ?c Background ''q'') \<noteq> []" by code_simp
  have n5: "fst (Context any_url ?c Background ''q'' AnyNil) \<noteq> []" by code_simp
  note t = requests_conform [where c = "?c" and up = any_url and ctx = Background
      and q = "''q''" and so = zero_SearchOptions and u = "''u''"
      and fo = zero_FindSimilarOptions and ids = None and go = zero_GetContentsOptions
      and q' = "''q''" and q'' = "''q''" and t = AnyNil]
  from t n1 n2 n3 n4 n5 show ?thesis
    by (simp add: hd_in_set)
qed

text \<open>
  C3. \<^verbatim>\<open>Context\<close> called with the nil interface behaves as \<^verbatim>\<open>Context\<close> called with the
  string \<^verbatim>\<open>"dynamic"\<close>, and every request it sends has the body
  \<^verbatim>\<open>{"query":<query>,"tokensNum":"dynamic"}\<close>.
\<close>

theorem Context_nil_sends_dynamic:
  \<open>Context up c ctx q AnyNil = Context up c ctx q (AnyString ''dynamic'')
   \<and> (\<forall>req \<in> set (fst (Context up c ctx q AnyNil)).
         Body req = Some (''{"query":'' @ appendString q @ '',"tokensNum":"dynamic"}''))\<close>
proof
  show "Context up c ctx q AnyNil = Context up c ctx q (AnyString ''dynamic'')"
    by (simp add: Context_def)
next
  show \<open>\<forall>req \<in> set (fst (Context up c ctx q AnyNil)).
         Body req = Some (''{"query":'' @ appendString q @ '',"tokensNum":"dynamic"}'')\<close>
    by (auto simp: Context_unfold dest!: do_sent_body [OF _ Marshal_ContextOptions_dynamic])
qed

theorem Context_nil_sends_dynamic_witness:
  \<open>fst (Context any_url (test_client 200 (Inr JNull)) Background ''code query'' AnyNil) \<noteq> []
   \<and> Body (hd (fst (Context any_url (test_client 200 (Inr JNull)) Background ''code query''
                      AnyNil)))
       = Some ''{"query":"code query","tokensNum":"dynamic"}''\<close>
proof -
  let ?c = "test_client 200 (Inr JNull)"
  have ne: "fst (Context any_url ?c Background ''code query'' AnyNil) \<noteq> []" by code_simp
  have a: \<open>appendString ''code query'' = ''"code query"''\<close> by code_simp
  from Context_nil_sends_dynamic [where c = "?c" and up = any_url and ctx = Background
      and q = "''code query''"] ne a
  show ?thesis by (simp add: hd_in_set)
qed

subsection \<open>Omitted fields\<close>


lemma present_simps [simp]:
  "present [] = []" "present (None # ms) = present ms" "present (Some kv # ms) = kv # present ms"
  by (simp_all add: present_def List.map_filter_simps)

lemma set_present: "set (present ms) = {kv. Some kv \<in> set ms}"
proof (induction ms)
  case Nil
  show ?case by simp
next
  case (Cons m ms)
  then show ?case by (cases m) auto
qed

lemma in_keys: "k \<in> set (keys ms) \<longleftrightarrow> (\<exists>v. Some (k, v) \<in> set ms)"
  by (force simp: keys_def set_present)








lemma omitempty_zero [simp]:
  "int_omitempty k 0 = None" "string_omitempty k [] = None" "bool_omitempty k False = None"
  "strings_omitempty k None = None" "strings_omitempty k (Some []) = None"
  "pointer_omitempty k enc None = None"
  by (simp_all add: int_omitempty_def string_omitempty_def bool_omitempty_def
      strings_omitempty_def pointer_omitempty_def)

lemma write_struct_query_only:
  \<open>write_struct [string_field ''query'' q] = ''{"query":'' @ appendString q @ ''}''\<close>
  by (simp add: write_struct_def string_field_def write_member_def dq_def)



lemma numResults_only:
  assumes "n \<noteq> 0"
  shows "present (fields_SearchOptions (zero_SearchOptions\<lparr>SearchOptions.NumResults := n\<rparr>))
           = [(''numResults'', itoa n)]"
  using assms by (simp add: fields_SearchOptions_def zero_SearchOptions_def int_omitempty_def)

text \<open>
  C6. A \<^verbatim>\<open>SearchOptions\<close> with only \<^verbatim>\<open>NumResults\<close> set (to a value other than 0, the
  value of an unset field) is encoded as the object \<^verbatim>\<open>{"numResults":n}\<close>: its only key is
  \<^verbatim>\<open>numResults\<close>, nothing is written for the other fields; the body of the search request
  is then \<^verbatim>\<open>{"query":<query>,"numResults":n}\<close>.
\<close>

theorem only_numResults_encoded:
  assumes "n \<noteq> 0"
  shows \<open>write_struct (fields_SearchOptions (zero_SearchOptions\<lparr>SearchOptions.NumResults := n\<rparr>))
           = ''{"numResults":'' @ itoa n @ ''}''
         \<and> keys (fields_SearchOptions (zero_SearchOptions\<lparr>SearchOptions.NumResults := n\<rparr>))
           = [''numResults'']
         \<and> json_Marshal (Body_searchRequest \<lparr>searchRequest.Query = q,
              SearchOptions = zero_SearchOptions\<lparr>SearchOptions.NumResults := n\<rparr>\<rparr>)
           = Inr (''{"query":'' @ appendString q @ '',"numResults":'' @ itoa n @ ''}'')\<close>
  using numResults_only [OF assms]
  by (simp add: write_struct_def keys_def write_member_def dq_def fields_searchRequest_def
      string_field_def)

theorem only_numResults_encoded_witness:
  \<open>write_struct (fields_SearchOptions (zero_SearchOptions\<lparr>SearchOptions.NumResults := 5\<rparr>))
           = ''{"numResults":5}''
         \<and> keys (fields_SearchOptions (zero_SearchOptions\<lparr>SearchOptions.NumResults := 5\<rparr>))
           = [''numResults'']
         \<and> json_Marshal (Body_searchRequest \<lparr>searchRequest.Query = ''q'',
              SearchOptions = zero_SearchOptions\<lparr>SearchOptions.NumResults := 5\<rparr>\<rparr>)
           = Inr ''{"query":"q","numResults":5}''\<close>
proof -
  have n: "(5::int) \<noteq> 0" by simp
  have i: "itoa 5 = ''5''" by code_simp
  have a: \<open>appendString ''q'' = ''"q"''\<close> by code_simp
  from only_numResults_encoded [OF n, where q = "''q''"] i a show ?thesis by simp
qed







subsection \<open>Decoding the response\<close>



lemma find_field_Some:
  assumes "find_field fs k = Some f"
  shows "f \<in> set fs \<and> foldName (fst f) = foldName k"
  using assms
  by (auto simp: find_field_def find_Some_iff split: option.splits)

lemma find_field_None:
  assumes "find_field fs k = None" "f \<in> set fs"
  shows "foldName (fst f) \<noteq> foldName k"
proof (cases "find (\<lambda>f. fst f = k) fs")
  case None
  with assms(1) have "find (\<lambda>f. foldName (fst f) = foldName k) fs = None"
    by (simp add: find_field_def)
  then have "\<not> (\<exists>x. x \<in> set fs \<and> foldName (fst x) = foldName k)"
    by (simp add: find_None_iff)
  with assms(2) show ?thesis by blast
next
  case (Some g)
  with assms(1) show ?thesis by (simp add: find_field_def)
qed

lemma fold_distinct_same:
  assumes "fold_distinct fs" "f \<in> set fs" "g \<in> set fs" "foldName (fst f) = foldName (fst g)"
  shows "f = g"
proof -
  from assms(1) have "inj_on (foldName \<circ> fst) (set fs)"
    by (simp add: fold_distinct_def distinct_map)
  moreover from assms(4) have "(foldName \<circ> fst) f = (foldName \<circ> fst) g" by simp
  ultimately show ?thesis using assms(2,3) by (rule inj_onD)
qed

lemma decode_members_field:
  assumes fd: "fold_distinct fs"
    and mem: "(n, into get put dec) \<in> set fs"
    and lens: "\<And>x r. get (put x r) = x"
    and others: "\<And>f j r r'. f \<in> set fs \<Longrightarrow> fst f \<noteq> n \<Longrightarrow> snd f j r = Inr r' \<Longrightarrow> get r' = get r"
    and ok: "decode_members s fs ms v = Inr v'"
  shows "(members_named n ms = [] \<longrightarrow> get v' = get v)
       \<and> (\<forall>m. members_named n ms = [m] \<longrightarrow> dec (snd m) (get v) = Inr (get v'))"
  using ok
proof (induction ms arbitrary: v)
  case Nil
  then show ?case by (simp add: members_named_def)
next
  case (Cons m ms)
  show ?case
  proof (cases "find_field fs (fst m)")
    case None
    with Cons.prems have rest: "decode_members s fs ms v = Inr v'" by simp
    from find_field_None [OF None mem] have "foldName (fst m) \<noteq> foldName n" by simp
    then have "members_named n (m # ms) = members_named n ms"
      by (simp add: members_named_def)
    with Cons.IH [OF rest] show ?thesis by simp
  next
    case (Some f)
    from find_field_Some [OF Some] have fin: "f \<in> set fs"
      and fk: "foldName (fst f) = foldName (fst m)" by simp_all
    from Cons.prems Some obtain v1 where step: "snd f (snd m) v = Inr v1"
      and rest: "decode_members s fs ms v1 = Inr v'"
      by (auto split: sum.splits)
    show ?thesis
    proof (cases "foldName (fst m) = foldName n")
      case True
      with fk have "foldName (fst f) = foldName (fst (n, into get put dec))" by simp
      from fold_distinct_same [OF fd fin mem this] have f: "f = (n, into get put dec)" .
      from step f have d: "dec (snd m) (get v) = Inr (get v1)"
        by (auto simp: into_def lens split: sum.splits)
      from True have mn: "members_named n (m # ms) = m # members_named n ms"
        by (simp add: members_named_def)
      from Cons.IH [OF rest] mn d show ?thesis by auto
    next
      case False
      with fk have "fst f \<noteq> n" by auto
      from others [OF fin this step] have g: "get v1 = get v" .
      from False have "members_named n (m # ms) = members_named n ms"
        by (simp add: members_named_def)
      with Cons.IH [OF rest] g show ?thesis by simp
    qed
  qed
qed

lemma decode_members_succeeds:
  assumes "\<And>m f r. m \<in> set ms \<Longrightarrow> find_field fs (fst m) = Some f \<Longrightarrow> \<exists>r'. snd f (snd m) r = Inr r'"
  shows "\<exists>v'. decode_members s fs ms v = Inr v'"
  using assms
proof (induction ms arbitrary: v)
  case Nil
  show ?case by simp
next
  case (Cons m ms)
  show ?case
  proof (cases "find_field fs (fst m)")
    case None
    with Cons show ?thesis by simp
  next
    case (Some f)
    from Cons.prems [of m f v] Some obtain v1 where "snd f (snd m) v = Inr v1" by auto
    moreover from Cons.IH [of v1] Cons.prems obtain v' where "decode_members s fs ms v1 = Inr v'"
      by auto
    ultimately show ?thesis using Some by simp
  qed
qed



lemma member_cases:
  assumes "member n ms = Some j"
  shows "(members_named n ms = [] \<and> j = JNull) \<or> (\<exists>m. members_named n ms = [m] \<and> snd m = j)"
  using assms by (auto simp: member_def split: list.splits)

lemma member_in:
  assumes "member n ms = Some j" "m \<in> set (members_named n ms)"
  shows "snd m = j"
  using member_cases [OF assms(1)] assms(2) by auto

lemma decode_members_succeeds':
  assumes "\<And>f m r. f \<in> set fs \<Longrightarrow> m \<in> set (members_named (fst f) ms) \<Longrightarrow> \<exists>r'. snd f (snd m) r = Inr r'"
  shows "\<exists>v'. decode_members s fs ms v = Inr v'"
proof (rule decode_members_succeeds)
  fix m f r
  assume m: "m \<in> set ms" and f: "find_field fs (fst m) = Some f"
  from find_field_Some [OF f] have "f \<in> set fs" "foldName (fst f) = foldName (fst m)" by simp_all
  with m have "f \<in> set fs" "m \<in> set (members_named (fst f) ms)"
    by (simp_all add: members_named_def)
  then show "\<exists>r'. snd f (snd m) r = Inr r'" by (rule assms)
qed

lemma field_value:
  assumes fd: "fold_distinct fs"
    and mem: "(n, into get put dec) \<in> set fs"
    and lens: "\<And>x r. get (put x r) = x"
    and others: "\<And>f j r r'. f \<in> set fs \<Longrightarrow> fst f \<noteq> n \<Longrightarrow> snd f j r = Inr r' \<Longrightarrow> get r' = get r"
    and ok: "decode_members s fs ms v = Inr v'"
    and mb: "member n ms = Some j"
    and agree: "dec j (get v) = Inr x"
    and null: "dec JNull (get v) = Inr (get v)"
  shows "get v' = x"
proof -
  note fv = decode_members_field [OF fd mem lens others ok]
  from member_cases [OF mb] show ?thesis
  proof
    assume "members_named n ms = [] \<and> j = JNull"
    with fv agree null show ?thesis by auto
  next
    assume "\<exists>m. members_named n ms = [m] \<and> snd m = j"
    with fv agree show ?thesis by auto
  qed
qed

lemma into_succeeds:
  assumes "\<exists>x. dec j (get r) = Inr x"
  shows "\<exists>r'. into get put dec j r = Inr r'"
  using assms by (auto simp: into_def)

lemma decode_string_as:
  "as_string j = Some s \<Longrightarrow> decode_string j [] = Inr s"
  by (cases j) (simp_all add: as_string_def)

lemma decode_string_succeeds:
  "as_string j = Some s \<Longrightarrow> \<exists>x. decode_string j old = Inr x"
  by (cases j) (simp_all add: as_string_def)

lemma decode_float64_as:
  "as_float64 j = Some x \<Longrightarrow> decode_float64 j 0 = Inr x"
  by (cases j) (auto simp: as_float64_def)

lemma decode_float64_succeeds:
  "as_float64 j = Some x \<Longrightarrow> \<exists>y. decode_float64 j old = Inr y"
  by (cases j) (auto simp: as_float64_def)

lemma decode_elems_as:
  assumes "\<And>j x. as j = Some x \<Longrightarrow> dec j zero = Inr x"
    and "those (map as js) = Some xs"
  shows "decode_elems dec zero [] js = Inr xs"
  using assms(2)
proof (induction js arbitrary: xs)
  case Nil
  then show ?case by simp
next
  case (Cons j js)
  from Cons.prems obtain y ys where y: "as j = Some y" and ys: "those (map as js) = Some ys"
    and xs: "xs = y # ys" by (auto split: option.splits)
  from assms(1) [OF y] Cons.IH [OF ys] xs show ?case by simp
qed

lemma decode_elems_succeeds:
  assumes "\<And>j x old. j \<in> set js \<Longrightarrow> as j = Some x \<Longrightarrow> \<exists>y. dec j old = Inr y"
    and "those (map as js) = Some xs"
  shows "\<exists>ys. decode_elems dec zero old js = Inr ys"
  using assms
proof (induction js arbitrary: xs old)
  case Nil
  then show ?case by simp
next
  case (Cons j js)
  from Cons.prems(2) obtain y ys where y: "as j = Some y" and ys: "those (map as js) = Some ys"
    by (auto split: option.splits)
  from Cons.prems(1) [OF _ y] obtain z where
    z: "dec j (case old of [] \<Rightarrow> zero | x # xs \<Rightarrow> x) = Inr z" by fastforce
  from Cons.IH [OF _ ys, of "tl old"] Cons.prems(1) obtain zs where
    "decode_elems dec zero (tl old) js = Inr zs" by fastforce
  with z show ?case by simp
qed

lemma decode_elems_strings_as:
  "those (map as_string js) = Some xs \<Longrightarrow> decode_elems decode_string [] [] js = Inr xs"
  by (rule decode_elems_as [where as = as_string]) (rule decode_string_as)

lemma decode_strings_as:
  "as_strings j = Some xs \<Longrightarrow> decode_slice ''[]string'' decode_string [] j None = Inr xs"
  by (cases j) (auto simp: as_strings_def decode_slice_def decode_elems_strings_as)

lemma decode_strings_succeeds:
  "as_strings j = Some xs \<Longrightarrow> \<exists>y. decode_slice ''[]string'' decode_string [] j old = Inr y"
proof (cases j)
  case (JArray js)
  assume "as_strings j = Some xs"
  with JArray obtain l where "those (map as_string js) = Some l"
    by (auto simp: as_strings_def)
  from decode_elems_succeeds [of js as_string decode_string, OF _ this]
  obtain ys where "decode_elems decode_string [] (case old of None \<Rightarrow> [] | Some l \<Rightarrow> l) js = Inr ys"
    using decode_string_succeeds by blast
  with JArray show ?thesis by (simp add: decode_slice_def)
qed (simp_all add: as_strings_def decode_slice_def)


lemma decode_slice_null: "decode_slice type dec zero JNull old = Inr None"
  by (simp add: decode_slice_def)

lemma fold_distinct_Result: "fold_distinct fields_Result"
  unfolding fold_distinct_def by code_simp

lemma schema_Result_fields:
  assumes "schema_Result (JObject ms) = Some r"
  shows "\<exists>j. member ''id'' ms = Some j \<and> as_string j = Some (ID r)"
    and "\<exists>j. member ''url'' ms = Some j \<and> as_string j = Some (Result.URL r)"
    and "\<exists>j. member ''title'' ms = Some j \<and> as_string j = Some (Title r)"
    and "\<exists>j. member ''author'' ms = Some j \<and> as_string j = Some (Author r)"
    and "\<exists>j. member ''publishedDate'' ms = Some j \<and> as_string j = Some (PublishedDate r)"
    and "\<exists>j. member ''text'' ms = Some j \<and> as_string j = Some (Result.Text r)"
    and "\<exists>j. member ''highlights'' ms = Some j \<and> as_strings j = Some (Result.Highlights r)"
    and "\<exists>j. member ''summary'' ms = Some j \<and> as_string j = Some (Result.Summary r)"
    and "\<exists>j. member ''score'' ms = Some j \<and> as_float64 j = Some (Score r)"
    and "\<exists>j. member ''image'' ms = Some j \<and> as_string j = Some (Image r)"
    and "\<exists>j. member ''favicon'' ms = Some j \<and> as_string j = Some (Favicon r)"
  using assms by (auto simp: schema_Result_def bind_eq_Some_conv)

lemma string_field_succeeds:
  assumes "\<exists>j. member n ms = Some j \<and> as_string j = Some s" "m \<in> set (members_named n ms)"
  shows "\<exists>r'. into get put decode_string (snd m) r = Inr r'"
proof -
  from assms obtain j where "member n ms = Some j" "as_string j = Some s" by blast
  with assms(2) have "as_string (snd m) = Some s" by (simp add: member_in)
  from decode_string_succeeds [OF this] show ?thesis by (rule into_succeeds)
qed

lemma strings_field_succeeds:
  assumes "\<exists>j. member n ms = Some j \<and> as_strings j = Some s" "m \<in> set (members_named n ms)"
  shows "\<exists>r'. into get put (decode_slice ''[]string'' decode_string []) (snd m) r = Inr r'"
proof -
  from assms obtain j where "member n ms = Some j" "as_strings j = Some s" by blast
  with assms(2) have "as_strings (snd m) = Some s" by (simp add: member_in)
  from decode_strings_succeeds [OF this] show ?thesis by (rule into_succeeds)
qed

lemma float64_field_succeeds:
  assumes "\<exists>j. member n ms = Some j \<and> as_float64 j = Some s" "m \<in> set (members_named n ms)"
  shows "\<exists>r'. into get put decode_float64 (snd m) r = Inr r'"
proof -
  from assms obtain j where "member n ms = Some j" "as_float64 j = Some s" by blast
  with assms(2) have "as_float64 (snd m) = Some s" by (simp add: member_in)
  from decode_float64_succeeds [OF this] show ?thesis by (rule into_succeeds)
qed

lemma decode_members_Result_succeeds:
  assumes "schema_Result (JObject ms) = Some r"
  shows "\<exists>v'. decode_members ''Result'' fields_Result ms v = Inr v'"
proof (rule decode_members_succeeds')
  fix f m r0
  assume f: "f \<in> set fields_Result" and m: "m \<in> set (members_named (fst f) ms)"
  note sf = schema_Result_fields [OF assms]
  from f have "f = (''id'', into ID (\<lambda>x r. r\<lparr>ID := x\<rparr>) decode_string)
      \<or> f = (''url'', into Result.URL (\<lambda>x r. r\<lparr>Result.URL := x\<rparr>) decode_string)
      \<or> f = (''title'', into Title (\<lambda>x r. r\<lparr>Title := x\<rparr>) decode_string)
      \<or> f = (''author'', into Author (\<lambda>x r. r\<lparr>Author := x\<rparr>) decode_string)
      \<or> f = (''publishedDate'', into PublishedDate (\<lambda>x r. r\<lparr>PublishedDate := x\<rparr>) decode_string)
      \<or> f = (''text'', into Result.Text (\<lambda>x r. r\<lparr>Result.Text := x\<rparr>) decode_string)
      \<or> f = (''highlights'', into Result.Highlights (\<lambda>x r. r\<lparr>Result.Highlights := x\<rparr>) (decode_slice ''[]string'' decode_string []))
      \<or> f = (''summary'', into Result.Summary (\<lambda>x r. r\<lparr>Result.Summary := x\<rparr>) decode_string)
      \<or> f = (''score'', into Score (\<lambda>x r. r\<lparr>Score := x\<rparr>) decode_float64)
      \<or> f = (''image'', into Image (\<lambda>x r. r\<lparr>Image := x\<rparr>) decode_string)
      \<or> f = (''favicon'', into Favicon (\<lambda>x r. r\<lparr>Favicon := x\<rparr>) decode_string)"
    by (simp add: fields_Result_def)
  then show "\<exists>r'. snd f (snd m) r0 = Inr r'"
  proof (elim disjE)
    assume e: "f = (''id'', into ID (\<lambda>x r. r\<lparr>ID := x\<rparr>) decode_string)"
    with m have "m \<in> set (members_named ''id'' ms)" by simp
    from string_field_succeeds [OF sf(1) this] e show ?thesis by simp
  next
    assume e: "f = (''url'', into Result.URL (\<lambda>x r. r\<lparr>Result.URL := x\<rparr>) decode_string)"
    with m have "m \<in> set (members_named ''url'' ms)" by simp
    from string_field_succeeds [OF sf(2) this] e show ?thesis by simp
  next
    assume e: "f = (''title'', into Title (\<lambda>x r. r\<lparr>Title := x\<rparr>) decode_string)"
    with m have "m \<in> set (members_named ''title'' ms)" by simp
    from string_field_succeeds [OF sf(3) this] e show ?thesis by simp
  next
    assume e: "f = (''author'', into Author (\<lambda>x r. r\<lparr>Author := x\<rparr>) decode_string)"
    with m have "m \<in> set (members_named ''author'' ms)" by simp
    from string_field_succeeds [OF sf(4) this] e show ?thesis by simp
  next
    assume e: "f = (''publishedDate'', into PublishedDate (\<lambda>x r. r\<lparr>PublishedDate := x\<rparr>) decode_string)"
    with m have "m \<in> set (members_named ''publishedDate'' ms)" by simp
    from string_field_succeeds [OF sf(5) this] e show ?thesis by simp
  next
    assume e: "f = (''text'', into Result.Text (\<lambda>x r. r\<lparr>Result.Text := x\<rparr>) decode_string)"
    with m have "m \<in> set (members_named ''text'' ms)" by simp
    from string_field_succeeds [OF sf(6) this] e show ?thesis by simp
  next
    assume e: "f = (''highlights'', into Result.Highlights (\<lambda>x r. r\<lparr>Result.Highlights := x\<rparr>) (decode_slice ''[]string'' decode_string []))"
    with m have "m \<in> set (members_named ''highlights'' ms)" by simp
    from strings_field_succeeds [OF sf(7) this] e show ?thesis by simp
  next
    assume e: "f = (''summary'', into Result.Summary (\<lambda>x r. r\<lparr>Result.Summary := x\<rparr>) decode_string)"
    with m have "m \<in> set (members_named ''summary'' ms)" by simp
    from string_field_succeeds [OF sf(8) this] e show ?thesis by simp
  next
    assume e: "f = (''score'', into Score (\<lambda>x r. r\<lparr>Score := x\<rparr>) decode_float64)"
    with m have "m \<in> set (members_named ''score'' ms)" by simp
    from float64_field_succeeds [OF sf(9) this] e show ?thesis by simp
  next
    assume e: "f = (''image'', into Image (\<lambda>x r. r\<lparr>Image := x\<rparr>) decode_string)"
    with m have "m \<in> set (members_named ''image'' ms)" by simp
    from string_field_succeeds [OF sf(10) this] e show ?thesis by simp
  next
    assume e: "f = (''favicon'', into Favicon (\<lambda>x r. r\<lparr>Favicon := x\<rparr>) decode_string)"
    with m have "m \<in> set (members_named ''favicon'' ms)" by simp
    from string_field_succeeds [OF sf(11) this] e show ?thesis by simp
  qed
qed

lemma others_ID:
  "f \<in> set fields_Result \<Longrightarrow> fst f \<noteq> ''id'' \<Longrightarrow> snd f j r = Inr r' \<Longrightarrow> ID r' = ID r"
  by (auto simp: fields_Result_def into_def split: sum.splits)

lemma others_Result_URL:
  "f \<in> set fields_Result \<Longrightarrow> fst f \<noteq> ''url'' \<Longrightarrow> snd f j r = Inr r' \<Longrightarrow> Result.URL r' = Result.URL r"
  by (auto simp: fields_Result_def into_def split: sum.splits)

lemma others_Title:
  "f \<in> set fields_Result \<Longrightarrow> fst f \<noteq> ''title'' \<Longrightarrow> snd f j r = Inr r' \<Longrightarrow> Title r' = Title r"
  by (auto simp: fields_Result_def into_def split: sum.splits)

lemma others_Author:
  "f \<in> set fields_Result \<Longrightarrow> fst f \<noteq> ''author'' \<Longrightarrow> snd f j r = Inr r' \<Longrightarrow> Author r' = Author r"
  by (auto simp: fields_Result_def into_def split: sum.splits)

lemma others_PublishedDate:
  "f \<in> set fields_Result \<Longrightarrow> fst f \<noteq> ''publishedDate'' \<Longrightarrow> snd f j r = Inr r' \<Longrightarrow> PublishedDate r' = PublishedDate r"
  by (auto simp: fields_Result_def into_def split: sum.splits)

lemma others_Result_Text:
  "f \<in> set fields_Result \<Longrightarrow> fst f \<noteq> ''text'' \<Longrightarrow> snd f j r = Inr r' \<Longrightarrow> Result.Text r' = Result.Text r"
  by (auto simp: fields_Result_def into_def split: sum.splits)

lemma others_Result_Highlights:
  "f \<in> set fields_Result \<Longrightarrow> fst f \<noteq> ''highlights'' \<Longrightarrow> snd f j r = Inr r' \<Longrightarrow> Result.Highlights r' = Result.Highlights r"
  by (auto simp: fields_Result_def into_def split: sum.splits)

lemma others_Result_Summary:
  "f \<in> set fields_Result \<Longrightarrow> fst f \<noteq> ''summary'' \<Longrightarrow> snd f j r = Inr r' \<Longrightarrow> Result.Summary r' = Result.Summary r"
  by (auto simp: fields_Result_def into_def split: sum.splits)

lemma others_Score:
  "f \<in> set fields_Result \<Longrightarrow> fst f \<noteq> ''score'' \<Longrightarrow> snd f j r = Inr r' \<Longrightarrow> Score r' = Score r"
  by (auto simp: fields_Result_def into_def split: sum.splits)

lemma others_Image:
  "f \<in> set fields_Result \<Longrightarrow> fst f \<noteq> ''image'' \<Longrightarrow> snd f j r = Inr r' \<Longrightarrow> Image r' = Image r"
  by (auto simp: fields_Result_def into_def split: sum.splits)

lemma others_Favicon:
  "f \<in> set fields_Result \<Longrightarrow> fst f \<noteq> ''favicon'' \<Longrightarrow> snd f j r = Inr r' \<Longrightarrow> Favicon r' = Favicon r"
  by (auto simp: fields_Result_def into_def split: sum.splits)

lemma decode_members_Result_schema:
  assumes "schema_Result (JObject ms) = Some r"
  shows "decode_members ''Result'' fields_Result ms zero_Result = Inr r"
proof -
  note sf = schema_Result_fields [OF assms]
  from decode_members_Result_succeeds [OF assms] obtain v' where
    ok: "decode_members ''Result'' fields_Result ms zero_Result = Inr v'" by blast
  have f1: "ID v' = ID r"
  proof -
    from sf(1) obtain j where mb: "member ''id'' ms = Some j" and a: "as_string j = Some (ID r)" by blast
    have mem: "(''id'', into ID (\<lambda>x r. r\<lparr>ID := x\<rparr>) decode_string) \<in> set fields_Result"
      by (simp add: fields_Result_def)
    show ?thesis
      by (rule field_value [OF fold_distinct_Result mem _ others_ID ok mb])
         (simp_all add: decode_string_as [OF a] zero_Result_def)
  qed
  have f2: "Result.URL v' = Result.URL r"
  proof -
    from sf(2) obtain j where mb: "member ''url'' ms = Some j" and a: "as_string j = Some (Result.URL r)" by blast
    have mem: "(''url'', into Result.URL (\<lambda>x r. r\<lparr>Result.URL := x\<rparr>) decode_string) \<in> set fields_Result"
      by (simp add: fields_Result_def)
    show ?thesis
      by (rule field_value [OF fold_distinct_Result mem _ others_Result_URL ok mb])
         (simp_all add: decode_string_as [OF a] zero_Result_def)
  qed
  have f3: "Title v' = Title r"
  proof -
    from sf(3) obtain j where mb: "member ''title'' ms = Some j" and a: "as_string j = Some (Title r)" by blast
    have mem: "(''title'', into Title (\<lambda>x r. r\<lparr>Title := x\<rparr>) decode_string) \<in> set fields_Result"
      by (simp add: fields_Result_def)
    show ?thesis
      by (rule field_value [OF fold_distinct_Result mem _ others_Title ok mb])
         (simp_all add: decode_string_as [OF a] zero_Result_def)
  qed
  have f4: "Author v' = Author r"
  proof -
    from sf(4) obtain j where mb: "member ''author'' ms = Some j" and a: "as_string j = Some (Author r)" by blast
    have mem: "(''author'', into Author (\<lambda>x r. r\<lparr>Author := x\<rparr>) decode_string) \<in> set fields_Result"
      by (simp add: fields_Result_def)
    show ?thesis
      by (rule field_value [OF fold_distinct_Result mem _ others_Author ok mb])
         (simp_all add: decode_string_as [OF a] zero_Result_def)
  qed
  have f5: "PublishedDate v' = PublishedDate r"
  proof -
    from sf(5) obtain j where mb: "member ''publishedDate'' ms = Some j" and a: "as_string j = Some (PublishedDate r)" by blast
    have mem: "(''publishedDate'', into PublishedDate (\<lambda>x r. r\<lparr>PublishedDate := x\<rparr>) decode_string) \<in> set fields_Result"
      by (simp add: fields_Result_def)
    show ?thesis
      by (rule field_value [OF fold_distinct_Result mem _ others_PublishedDate ok mb])
         (simp_all add: decode_string_as [OF a] zero_Result_def)
  qed
  have f6: "Result.Text v' = Result.Text r"
  proof -
    from sf(6) obtain j where mb: "member ''text'' ms = Some j" and a: "as_string j = Some (Result.Text r)" by blast
    have mem: "(''text'', into Result.Text (\<lambda>x r. r\<lparr>Result.Text := x\<rparr>) decode_string) \<in> set fields_Result"
      by (simp add: fields_Result_def)
    show ?thesis
      by (rule field_value [OF fold_distinct_Result mem _ others_Result_Text ok mb])
         (simp_all add: decode_string_as [OF a] zero_Result_def)
  qed
  have f7: "Result.Highlights v' = Result.Highlights r"
  proof -
    from sf(7) obtain j where mb: "member ''highlights'' ms = Some j" and a: "as_strings j = Some (Result.Highlights r)" by blast
    have mem: "(''highlights'', into Result.Highlights (\<lambda>x r. r\<lparr>Result.Highlights := x\<rparr>) (decode_slice ''[]string'' decode_string [])) \<in> set fields_Result"
      by (simp add: fields_Result_def)
    show ?thesis
      by (rule field_value [OF fold_distinct_Result mem _ others_Result_Highlights ok mb])
         (simp_all add: decode_strings_as [OF a] zero_Result_def decode_slice_null)
  qed
  have f8: "Result.Summary v' = Result.Summary r"
  proof -
    from sf(8) obtain j where mb: "member ''summary'' ms = Some j" and a: "as_string j = Some (Result.Summary r)" by blast
    have mem: "(''summary'', into Result.Summary (\<lambda>x r. r\<lparr>Result.Summary := x\<rparr>) decode_string) \<in> set fields_Result"
      by (simp add: fields_Result_def)
    show ?thesis
      by (rule field_value [OF fold_distinct_Result mem _ others_Result_Summary ok mb])
         (simp_all add: decode_string_as [OF a] zero_Result_def)
  qed
  have f9: "Score v' = Score r"
  proof -
    from sf(9) obtain j where mb: "member ''score'' ms = Some j" and a: "as_float64 j = Some (Score r)" by blast
    have mem: "(''score'', into Score (\<lambda>x r. r\<lparr>Score := x\<rparr>) decode_float64) \<in> set fields_Result"
      by (simp add: fields_Result_def)
    show ?thesis
      by (rule field_value [OF fold_distinct_Result mem _ others_Score ok mb])
         (simp_all add: decode_float64_as [OF a] zero_Result_def)
  qed
  have f10: "Image v' = Image r"
  proof -
    from sf(10) obtain j where mb: "member ''image'' ms = Some j" and a: "as_string j = Some (Image r)" by blast
    have mem: "(''image'', into Image (\<lambda>x r. r\<lparr>Image := x\<rparr>) decode_string) \<in> set fields_Result"
      by (simp add: fields_Result_def)
    show ?thesis
      by (rule field_value [OF fold_distinct_Result mem _ others_Image ok mb])
         (simp_all add: decode_string_as [OF a] zero_Result_def)
  qed
  have f11: "Favicon v' = Favicon r"
  proof -
    from sf(11) obtain j where mb: "member ''favicon'' ms = Some j" and a: "as_string j = Some (Favicon r)" by blast
    have mem: "(''favicon'', into Favicon (\<lambda>x r. r\<lparr>Favicon := x\<rparr>) decode_string) \<in> set fields_Result"
      by (simp add: fields_Result_def)
    show ?thesis
      by (rule field_value [OF fold_distinct_Result mem _ others_Favicon ok mb])
         (simp_all add: decode_string_as [OF a] zero_Result_def)
  qed
  from f1 f2 f3 f4 f5 f6 f7 f8 f9 f10 f11 have "v' = r" by (cases v', cases r) simp
  with ok show ?thesis by simp
qed


lemma decode_Result_schema:
  assumes "schema_Result j = Some r"
  shows "decode_Result j zero_Result = Inr r"
proof -
  from assms obtain ms where j: "j = JObject ms"
    by (cases j) (simp_all add: schema_Result_def)
  with assms decode_members_Result_schema [of ms r] show ?thesis
    by (simp add: decode_Result_def decode_struct_def)
qed

lemma decode_Result_succeeds:
  assumes "schema_Result j = Some r"
  shows "\<exists>y. decode_Result j old = Inr y"
proof -
  from assms obtain ms where j: "j = JObject ms"
    by (cases j) (simp_all add: schema_Result_def)
  with assms decode_members_Result_succeeds [of ms r old] show ?thesis
    by (simp add: decode_Result_def decode_struct_def)
qed

lemma decode_Results_as:
  assumes "schema_Results j = Some rs"
  shows "decode_Results j None = Inr rs"
proof (cases j)
  case (JArray js)
  with assms obtain l where l: "those (map schema_Result js) = Some l" and rs: "rs = Some l"
    by (auto simp: schema_Results_def)
  have "decode_elems decode_Result zero_Result [] js = Inr l"
    by (rule decode_elems_as [where as = schema_Result, OF _ l]) (rule decode_Result_schema)
  with JArray rs show ?thesis by (simp add: decode_Results_def decode_slice_def)
qed (use assms in \<open>simp_all add: schema_Results_def decode_Results_def decode_slice_def\<close>)

lemma decode_Results_succeeds:
  assumes "schema_Results j = Some rs"
  shows "\<exists>y. decode_Results j old = Inr y"
proof (cases j)
  case (JArray js)
  with assms obtain l where l: "those (map schema_Result js) = Some l"
    by (auto simp: schema_Results_def)
  from decode_elems_succeeds [of js schema_Result decode_Result, OF _ l]
  obtain ys where
    "decode_elems decode_Result zero_Result (case old of None \<Rightarrow> [] | Some l \<Rightarrow> l) js = Inr ys"
    using decode_Result_succeeds by blast
  with JArray show ?thesis by (simp add: decode_Results_def decode_slice_def)
qed (use assms in \<open>simp_all add: schema_Results_def decode_Results_def decode_slice_def\<close>)

lemma decode_Results_null: "decode_Results JNull old = Inr None"
  by (simp add: decode_Results_def decode_slice_def)

lemma results_field_succeeds:
  assumes "\<exists>j. member n ms = Some j \<and> schema_Results j = Some s" "m \<in> set (members_named n ms)"
  shows "\<exists>r'. into get put decode_Results (snd m) r = Inr r'"
proof -
  from assms obtain j where "member n ms = Some j" "schema_Results j = Some s" by blast
  with assms(2) have "schema_Results (snd m) = Some s" by (simp add: member_in)
  from decode_Results_succeeds [OF this] show ?thesis by (rule into_succeeds)
qed

subsection \<open>SearchResponse\<close>

lemma fold_distinct_SearchResponse: "fold_distinct fields_SearchResponse"
  unfolding fold_distinct_def by code_simp

lemma schema_SearchResponse_fields:
  assumes "schema_SearchResponse (JObject ms) = Some r"
  shows "\<exists>j. member ''results'' ms = Some j \<and> schema_Results j = Some (SearchResponse.Results r)"
    and "\<exists>j. member ''requestId'' ms = Some j \<and> as_string j = Some (SearchResponse.RequestID r)"
  using assms by (auto simp: schema_SearchResponse_def bind_eq_Some_conv)

lemma others_SearchResponse:
  "f \<in> set fields_SearchResponse \<Longrightarrow> fst f \<noteq> ''results'' \<Longrightarrow> snd f j r = Inr r'
     \<Longrightarrow> SearchResponse.Results r' = SearchResponse.Results r"
  "f \<in> set fields_SearchResponse \<Longrightarrow> fst f \<noteq> ''requestId'' \<Longrightarrow> snd f j r = Inr r'
     \<Longrightarrow> SearchResponse.RequestID r' = SearchResponse.RequestID r"
  by (auto simp: fields_SearchResponse_def into_def split: sum.splits)

lemma decode_SearchResponse_schema:
  assumes "schema_SearchResponse j = Some r"
  shows "decode_SearchResponse j zero_SearchResponse = Inr r"
proof -
  from assms obtain ms where j: "j = JObject ms"
    by (cases j) (simp_all add: schema_SearchResponse_def)
  note sf = schema_SearchResponse_fields [OF assms [unfolded j]]
  have "\<exists>v'. decode_members ''SearchResponse'' fields_SearchResponse ms zero_SearchResponse = Inr v'"
  proof (rule decode_members_succeeds')
    fix f m r0
    assume f: "f \<in> set fields_SearchResponse" and m: "m \<in> set (members_named (fst f) ms)"
    from f have "f = (''results'', into SearchResponse.Results
                        (\<lambda>x r. r\<lparr>SearchResponse.Results := x\<rparr>) decode_Results)
      \<or> f = (''requestId'', into SearchResponse.RequestID
                        (\<lambda>x r. r\<lparr>SearchResponse.RequestID := x\<rparr>) decode_string)"
      by (simp add: fields_SearchResponse_def)
    then show "\<exists>r'. snd f (snd m) r0 = Inr r'"
    proof
      assume e: "f = (''results'', into SearchResponse.Results
                        (\<lambda>x r. r\<lparr>SearchResponse.Results := x\<rparr>) decode_Results)"
      with m have "m \<in> set (members_named ''results'' ms)" by simp
      from results_field_succeeds [OF sf(1) this] e show ?thesis by simp
    next
      assume e: "f = (''requestId'', into SearchResponse.RequestID
                        (\<lambda>x r. r\<lparr>SearchResponse.RequestID := x\<rparr>) decode_string)"
      with m have "m \<in> set (members_named ''requestId'' ms)" by simp
      from string_field_succeeds [OF sf(2) this] e show ?thesis by simp
    qed
  qed
  then obtain v' where
    ok: "decode_members ''SearchResponse'' fields_SearchResponse ms zero_SearchResponse = Inr v'"
    by blast
  have f1: "SearchResponse.Results v' = SearchResponse.Results r"
  proof -
    from sf(1) obtain j' where mb: "member ''results'' ms = Some j'"
      and a: "schema_Results j' = Some (SearchResponse.Results r)" by blast
    have mem: "(''results'', into SearchResponse.Results
                  (\<lambda>x r. r\<lparr>SearchResponse.Results := x\<rparr>) decode_Results)
               \<in> set fields_SearchResponse"
      by (simp add: fields_SearchResponse_def)
    show ?thesis
      by (rule field_value [OF fold_distinct_SearchResponse mem _ others_SearchResponse(1) ok mb])
         (simp_all add: decode_Results_as [OF a] zero_SearchResponse_def decode_Results_null)
  qed
  have f2: "SearchResponse.RequestID v' = SearchResponse.RequestID r"
  proof -
    from sf(2) obtain j' where mb: "member ''requestId'' ms = Some j'"
      and a: "as_string j' = Some (SearchResponse.RequestID r)" by blast
    have mem: "(''requestId'', into SearchResponse.RequestID
                  (\<lambda>x r. r\<lparr>SearchResponse.RequestID := x\<rparr>) decode_string)
               \<in> set fields_SearchResponse"
      by (simp add: fields_SearchResponse_def)
    show ?thesis
      by (rule field_value [OF fold_distinct_SearchResponse mem _ others_SearchResponse(2) ok mb])
         (simp_all add: decode_string_as [OF a] zero_SearchResponse_def)
  qed
  from f1 f2 have "v' = r" by (cases v', cases r) simp
  with ok j show ?thesis by (simp add: decode_SearchResponse_def decode_struct_def)
qed

subsection \<open>answerResponse\<close>

lemma fold_distinct_answerResponse: "fold_distinct fields_answerResponse"
  unfolding fold_distinct_def by code_simp

lemma schema_answerResponse_fields:
  assumes "schema_answerResponse (JObject ms) = Some r"
  shows "\<exists>j. member ''answer'' ms = Some j \<and> as_string j = Some (answerResponse.Answer r)"
    and "\<exists>j. member ''citations'' ms = Some j \<and> schema_Results j = Some (answerResponse.Citations r)"
    and "\<exists>j. member ''requestId'' ms = Some j \<and> as_string j = Some (answerResponse.RequestID r)"
  using assms by (auto simp: schema_answerResponse_def bind_eq_Some_conv)

lemma others_answerResponse:
  "f \<in> set fields_answerResponse \<Longrightarrow> fst f \<noteq> ''answer'' \<Longrightarrow> snd f j r = Inr r'
     \<Longrightarrow> answerResponse.Answer r' = answerResponse.Answer r"
  "f \<in> set fields_answerResponse \<Longrightarrow> fst f \<noteq> ''citations'' \<Longrightarrow> snd f j r = Inr r'
     \<Longrightarrow> answerResponse.Citations r' = answerResponse.Citations r"
  "f \<in> set fields_answerResponse \<Longrightarrow> fst f \<noteq> ''requestId'' \<Longrightarrow> snd f j r = Inr r'
     \<Longrightarrow> answerResponse.RequestID r' = answerResponse.RequestID r"
  by (auto simp: fields_answerResponse_def into_def split: sum.splits)

lemma decode_answerResponse_schema:
  assumes "schema_answerResponse j = Some r"
  shows "decode_answerResponse j zero_answerResponse = Inr r"
proof -
  from assms obtain ms where j: "j = JObject ms"
    by (cases j) (simp_all add: schema_answerResponse_def)
  note sf = schema_answerResponse_fields [OF assms [unfolded j]]
  have "\<exists>v'. decode_members ''answerResponse'' fields_answerResponse ms zero_answerResponse = Inr v'"
  proof (rule decode_members_succeeds')
    fix f m r0
    assume f: "f \<in> set fields_answerResponse" and m: "m \<in> set (members_named (fst f) ms)"
    from f have "f = (''answer'', into answerResponse.Answer
                        (\<lambda>x r. r\<lparr>answerResponse.Answer := x\<rparr>) decode_string)
      \<or> f = (''citations'', into answerResponse.Citations
                        (\<lambda>x r. r\<lparr>answerResponse.Citations := x\<rparr>) decode_Results)
      \<or> f = (''requestId'', into answerResponse.RequestID
                        (\<lambda>x r. r\<lparr>answerResponse.RequestID := x\<rparr>) decode_string)"
      by (simp add: fields_answerResponse_def)
    then show "\<exists>r'. snd f (snd m) r0 = Inr r'"
    proof (elim disjE)
      assume e: "f = (''answer'', into answerResponse.Answer
                        (\<lambda>x r. r\<lparr>answerResponse.Answer := x\<rparr>) decode_string)"
      with m have "m \<in> set (members_named ''answer'' ms)" by simp
      from string_field_succeeds [OF sf(1) this] e show ?thesis by simp
    next
      assume e: "f = (''citations'', into answerResponse.Citations
                        (\<lambda>x r. r\<lparr>answerResponse.Citations := x\<rparr>) decode_Results)"
      with m have "m \<in> set (members_named ''citations'' ms)" by simp
      from results_field_succeeds [OF sf(2) this] e show ?thesis by simp
    next
      assume e: "f = (''requestId'', into answerResponse.RequestID
                        (\<lambda>x r. r\<lparr>answerResponse.RequestID := x\<rparr>) decode_string)"
      with m have "m \<in> set (members_named ''requestId'' ms)" by simp
      from string_field_succeeds [OF sf(3) this] e show ?thesis by simp
    qed
  qed
  then obtain v' where
    ok: "decode_members ''answerResponse'' fields_answerResponse ms zero_answerResponse = Inr v'"
    by blast
  have f1: "answerResponse.Answer v' = answerResponse.Answer r"
  proof -
    from sf(1) obtain j' where mb: "member ''answer'' ms = Some j'"
      and a: "as_string j' = Some (answerResponse.Answer r)" by blast
    have mem: "(''answer'', into answerResponse.Answer
                  (\<lambda>x r. r\<lparr>answerResponse.Answer := x\<rparr>) decode_string)
               \<in> set fields_answerResponse"
      by (simp add: fields_answerResponse_def)
    show ?thesis
      by (rule field_value [OF fold_distinct_answerResponse mem _ others_answerResponse(1) ok mb])
         (simp_all add: decode_string_as [OF a] zero_answerResponse_def)
  qed
  have f2: "answerResponse.Citations v' = answerResponse.Citations r"
  proof -
    from sf(2) obtain j' where mb: "member ''citations'' ms = Some j'"
      and a: "schema_Results j' = Some (answerResponse.Citations r)" by blast
    have mem: "(''citations'', into answerResponse.Citations
                  (\<lambda>x r. r\<lparr>answerResponse.Citations := x\<rparr>) decode_Results)
               \<in> set fields_answerResponse"
      by (simp add: fields_answerResponse_def)
    show ?thesis
      by (rule field_value [OF fold_distinct_answerResponse mem _ others_answerResponse(2) ok mb])
         (simp_all add: decode_Results_as [OF a] zero_answerResponse_def decode_Results_null)
  qed
  have f3: "answerResponse.RequestID v' = answerResponse.RequestID r"
  proof -
    from sf(3) obtain j' where mb: "member ''requestId'' ms = Some j'"
      and a: "as_string j' = Some (answerResponse.RequestID r)" by blast
    have mem: "(''requestId'', into answerResponse.RequestID
                  (\<lambda>x r. r\<lparr>answerResponse.RequestID := x\<rparr>) decode_string)
               \<in> set fields_answerResponse"
      by (simp add: fields_answerResponse_def)
    show ?thesis
      by (rule field_value [OF fold_distinct_answerResponse mem _ others_answerResponse(3) ok mb])
         (simp_all add: decode_string_as [OF a] zero_answerResponse_def)
  qed
  from f1 f2 f3 have "v' = r" by (cases v', cases r) simp
  with ok j show ?thesis by (simp add: decode_answerResponse_def decode_struct_def)
qed

subsection \<open>The wire forms match the schemas\<close>


lemma foldName_keys:
  "foldName ''id'' = ''ID''" "foldName ''url'' = ''URL''" "foldName ''title'' = ''TITLE''"
  "foldName ''author'' = ''AUTHOR''" "foldName ''publishedDate'' = ''PUBLISHEDDATE''"
  "foldName ''text'' = ''TEXT''" "foldName ''highlights'' = ''HIGHLIGHTS''"
  "foldName ''summary'' = ''SUMMARY''" "foldName ''score'' = ''SCORE''"
  "foldName ''image'' = ''IMAGE''" "foldName ''favicon'' = ''FAVICON''"
  "foldName ''results'' = ''RESULTS''" "foldName ''requestId'' = ''REQUESTID''"
  "foldName ''answer'' = ''ANSWER''" "foldName ''citations'' = ''CITATIONS''"
  by code_simp+

lemma those_map_inverse:
  assumes "\<And>x. f (g x) = Some x"
  shows "those (map f (map g l)) = Some l"
  by (induction l) (simp_all add: assms)

lemma as_strings_wire: "as_strings (wire_strings hs) = Some hs"
proof (cases hs)
  case None
  then show ?thesis by (simp add: as_strings_def wire_strings_def)
next
  case (Some l)
  have "those (map as_string (map JString l)) = Some l"
    by (rule those_map_inverse) (simp add: as_string_def)
  with Some show ?thesis by (simp add: as_strings_def wire_strings_def)
qed

lemma schema_Result_wire: "schema_Result (wire_Result lit r) = Some r"
  by (cases r)
     (simp add: schema_Result_def wire_Result_def wire_omitempty_def member_def
      members_named_def foldName_keys as_string_def as_float64_def as_strings_wire)

lemma schema_Results_wire: "schema_Results (wire_Results lit rs) = Some rs"
proof (cases rs)
  case None
  then show ?thesis by (simp add: schema_Results_def wire_Results_def)
next
  case (Some l)
  have "those (map schema_Result (map (wire_Result lit) l)) = Some l"
    by (rule those_map_inverse) (rule schema_Result_wire)
  with Some show ?thesis by (simp add: schema_Results_def wire_Results_def)
qed

lemma schema_SearchResponse_wire:
  "schema_SearchResponse (wire_SearchResponse lit r) = Some r"
  by (cases r)
     (simp add: schema_SearchResponse_def wire_SearchResponse_def member_def
      members_named_def foldName_keys as_string_def schema_Results_wire)

lemma schema_answerResponse_wire:
  "schema_answerResponse (wire_answerResponse lit r) = Some r"
  by (cases r)
     (simp add: schema_answerResponse_def wire_answerResponse_def member_def
      members_named_def foldName_keys as_string_def schema_Results_wire)

lemma foldName_sample:
  "foldName ''resolvedSearchType'' = ''RESOLVEDSEARCHTYPE''"
  "foldName ''costDollars'' = ''COSTDOLLARS''"
  "foldName ''highlightScores'' = ''HIGHLIGHTSCORES''"
  by code_simp+

lemma handle_success:
  assumes "StatusCode resp < 400" "RespBody resp = Inr j" "dec j dst = Inr v"
  shows "handle resp dst (Some dec) = Inr v"
  using assms by (simp add: handle_def Decode_def)

text \<open>
  C7. For every query, when the executor answers the request of \<^verbatim>\<open>Search\<close> with a 2xx
  status and a JSON document that matches the Result-list envelope schema, denoting the
  envelope \<open>env\<close>, \<^verbatim>\<open>Search\<close> returns \<open>env\<close> and no error: its \<^verbatim>\<open>RequestID\<close> is the
  \<^verbatim>\<open>requestId\<close> of the document and its \<^verbatim>\<open>Results\<close> are the \<^verbatim>\<open>results\<close> of the document,
  element for element.
\<close>

theorem Search_decodes_envelope:
  assumes "answered c (fst (Search up c ctx q so)) resp"
    and "200 \<le> StatusCode resp" and "StatusCode resp < 300"
    and "RespBody resp = Inr j" and "schema_SearchResponse j = Some env"
  shows "snd (Search up c ctx q so) = (Some env, None)"
proof -
  from assms(3) have lt: "StatusCode resp < 400" by simp
  show ?thesis
    using assms(1)
    by (simp add: Search_unfold do_answered returned_def
        handle_success [where dec = decode_SearchResponse, OF lt assms(4)
          decode_SearchResponse_schema [OF assms(5)]])
qed

theorem Search_decodes_envelope_witness:
  "snd (Search any_url
          (test_client 200 (Inr (wire_SearchResponse test_literal test_SearchResponse)))
          Background ''test query'' zero_SearchOptions)
     = (Some test_SearchResponse, None)
   \<and> snd (Search any_url (test_client 200 (Inr sample_body)) Background ''test query''
            zero_SearchOptions)
     = (Some sample_SearchResponse, None)"
proof -
  let ?j = "wire_SearchResponse test_literal test_SearchResponse"
  let ?resp = "\<lparr>StatusCode = 200, RespBody = Inr ?j\<rparr>"
  let ?c = "test_client 200 (Inr ?j)"
  let ?resp' = "\<lparr>StatusCode = 200, RespBody = Inr sample_body\<rparr>"
  let ?c' = "test_client 200 (Inr sample_body)"
  have a: "answered ?c (fst (Search any_url ?c Background ''test query'' zero_SearchOptions)) ?resp"
    by code_simp
  have a': "answered ?c' (fst (Search any_url ?c' Background ''test query'' zero_SearchOptions))
              ?resp'"
    by code_simp
  have s: "200 \<le> StatusCode ?resp" "StatusCode ?resp < 300"
    "200 \<le> StatusCode ?resp'" "StatusCode ?resp' < 300" by simp_all
  have b: "RespBody ?resp = Inr ?j" and b': "RespBody ?resp' = Inr sample_body" by simp_all
  have m: "schema_SearchResponse ?j = Some test_SearchResponse"
    by (rule schema_SearchResponse_wire)
  have m': "schema_SearchResponse sample_body = Some sample_SearchResponse"
    by (simp add: sample_body_def sample_SearchResponse_def zero_Result_def
        schema_SearchResponse_def schema_Results_def schema_Result_def member_def
        members_named_def foldName_keys foldName_sample as_string_def as_strings_def
        as_float64_def)
  from Search_decodes_envelope [OF a s(1) s(2) b m] Search_decodes_envelope [OF a' s(3) s(4) b' m']
  show ?thesis by simp
qed

text \<open>
  C4. For every query, every request of \<^verbatim>\<open>Answer\<close> has the body
  \<^verbatim>\<open>{"query":<query>,"text":true}\<close> (the caller has no parameter to change it); and when
  the executor answers with a status under 400 and a JSON document that matches the
  answer schema, the result's \<^verbatim>\<open>Answer\<close>, \<^verbatim>\<open>Citations\<close> and \<^verbatim>\<open>RequestID\<close> are the \<^verbatim>\<open>answer\<close>,
  \<^verbatim>\<open>citations\<close> and \<^verbatim>\<open>requestId\<close> of the document.
\<close>

theorem Answer_text_true_and_reshaped:
  \<open>(\<forall>req \<in> set (fst (Answer up c ctx q)).
       Body req = Some (''{"query":'' @ appendString q @ '',"text":true}''))
   \<and> (answered c (fst (Answer up c ctx q)) resp \<and> StatusCode resp < 400
        \<and> RespBody resp = Inr j \<and> schema_answerResponse j = Some w
      \<longrightarrow> snd (Answer up c ctx q)
            = (Some \<lparr>AnswerResponse.Answer = answerResponse.Answer w,
                      Citations = answerResponse.Citations w,
                      RequestID = answerResponse.RequestID w\<rparr>, None))\<close>
proof (intro conjI impI)
  show \<open>\<forall>req \<in> set (fst (Answer up c ctx q)).
       Body req = Some (''{"query":'' @ appendString q @ '',"text":true}'')\<close>
    by (auto simp: Answer_unfold dest!: do_sent_body [OF _ Marshal_AnswerOptions])
next
  assume h: "answered c (fst (Answer up c ctx q)) resp \<and> StatusCode resp < 400
        \<and> RespBody resp = Inr j \<and> schema_answerResponse j = Some w"
  then have a: "answered c (fst (Answer up c ctx q)) resp" and lt: "StatusCode resp < 400"
    and b: "RespBody resp = Inr j" and m: "schema_answerResponse j = Some w" by simp_all
  from a show "snd (Answer up c ctx q)
            = (Some \<lparr>AnswerResponse.Answer = answerResponse.Answer w,
                      Citations = answerResponse.Citations w,
                      RequestID = answerResponse.RequestID w\<rparr>, None)"
    by (simp add: Answer_unfold do_answered returned_def reshape_def
        handle_success [where dec = decode_answerResponse, OF lt b
          decode_answerResponse_schema [OF m]])
qed

theorem Answer_text_true_and_reshaped_witness:
  \<open>fst (Answer any_url
          (test_client 200 (Inr (wire_answerResponse test_literal test_answerResponse)))
          Background ''What is the answer?'') \<noteq> []
   \<and> Body (hd (fst (Answer any_url
          (test_client 200 (Inr (wire_answerResponse test_literal test_answerResponse)))
          Background ''What is the answer?'')))
       = Some ''{"query":"What is the answer?","text":true}''
   \<and> snd (Answer any_url
          (test_client 200 (Inr (wire_answerResponse test_literal test_answerResponse)))
          Background ''What is the answer?'')
       = (Some \<lparr>AnswerResponse.Answer = ''The answer is 42'',
                 Citations = Some [zero_Result\<lparr>Result.URL := ''https://hitchhikers.guide'',
                                               Title := ''Hitchhiker's Guide''\<rparr>],
                 RequestID = ''ans-id''\<rparr>, None)\<close>
proof -
  let ?j = "wire_answerResponse test_literal test_answerResponse"
  let ?resp = "\<lparr>StatusCode = 200, RespBody = Inr ?j\<rparr>"
  let ?c = "test_client 200 (Inr ?j)"
  have ne: "fst (Answer any_url ?c Background ''What is the answer?'') \<noteq> []" by code_simp
  have a: "answered ?c (fst (Answer any_url ?c Background ''What is the answer?'')) ?resp"
    by code_simp
  have q: \<open>appendString ''What is the answer?'' = ''"What is the answer?"''\<close> by code_simp
  have m: "schema_answerResponse ?j = Some test_answerResponse"
    by (rule schema_answerResponse_wire)
  from Answer_text_true_and_reshaped [where c = "?c" and up = any_url and ctx = Background
      and q = "''What is the answer?''" and resp = "?resp" and j = "?j"
      and w = test_answerResponse] ne a q m
  show ?thesis by (simp add: test_answerResponse_def)
qed

subsection \<open>Results and errors\<close>


lemma has_prefix_append: "has_prefix p (p @ s)"
  by (simp add: has_prefix_def)

lemma Errorf_w_text: "Error_text (Errorf_w p err) = p @ lib_Error err"
  by (simp add: Errorf_w_def)

lemma handle_kind:
  "(\<exists>v. handle resp dst res = Inr v)
   \<or> (\<exists>e. handle resp dst res = Inl e \<and> (is_ApiError e \<or> is_DecodeError e))"
proof (cases "400 \<le> StatusCode resp")
  case True
  have "\<exists>e. handle resp dst res = Inl e \<and> is_ApiError e"
  proof (cases "Decode (RespBody resp) zero_errResp decode_errResp")
    case (Inl err)
    with True have "handle resp dst res
        = Inl (Error (''api request failed with status '' @ itoa (StatusCode resp)) None)"
      by (simp add: handle_def)
    moreover have "is_ApiError (Error (''api request failed with status '' @ itoa (StatusCode resp)) None)"
      unfolding is_ApiError_def error.sel by (rule disjI2) (rule has_prefix_append)
    ultimately show ?thesis by blast
  next
    case (Inr er)
    with True have "handle resp dst res
        = Inl (Error (''api error: '' @ (Message er @ '' (status '' @ itoa (StatusCode resp) @ '')'')) None)"
      by (simp add: handle_def)
    moreover have "is_ApiError (Error (''api error: '' @ (Message er @ '' (status '' @ itoa (StatusCode resp) @ '')'')) None)"
      unfolding is_ApiError_def error.sel by (rule disjI1) (rule has_prefix_append)
    ultimately show ?thesis by blast
  qed
  then show ?thesis by blast
next
  case False
  show ?thesis
  proof (cases res)
    case None
    with False show ?thesis by (simp add: handle_def)
  next
    case (Some dec)
    show ?thesis
    proof (cases "Decode (RespBody resp) dst dec")
      case (Inl err)
      with False Some have "handle resp dst res = Inl (Errorf_w ''failed to decode response: '' err)"
        by (simp add: handle_def)
      moreover have "is_DecodeError (Errorf_w ''failed to decode response: '' err)"
        unfolding is_DecodeError_def Errorf_w_text by (rule has_prefix_append)
      ultimately show ?thesis by blast
    next
      case (Inr v)
      with False Some show ?thesis by (simp add: handle_def)
    qed
  qed
qed

lemma do_kind:
  "(\<exists>v. snd (do up c ctx m p b dst res) = Inr v)
   \<or> (\<exists>e. snd (do up c ctx m p b dst res) = Inl e \<and> (in_taxonomy e \<or> is_RequestError e))"
proof (cases "marshal_body b")
  case (Inl err)
  then have "snd (do up c ctx m p b dst res) = Inl (Errorf_w ''failed to marshal request body: '' err)"
    by (simp add: do_unfold)
  moreover have "is_SerializationError (Errorf_w ''failed to marshal request body: '' err)"
    unfolding is_SerializationError_def Errorf_w_text by (rule has_prefix_append)
  ultimately show ?thesis unfolding in_taxonomy_def by blast
next
  case (Inr bodyReader)
  note mb = this
  show ?thesis
  proof (cases "NewRequestWithContext up ctx m (baseURL c @ p) bodyReader")
    case (Inl err)
    with mb have "snd (do up c ctx m p b dst res) = Inl (Errorf_w ''failed to create request: '' err)"
      by (simp add: do_unfold)
    moreover have "is_RequestError (Errorf_w ''failed to create request: '' err)"
      unfolding is_RequestError_def Errorf_w_text by (rule has_prefix_append)
    ultimately show ?thesis by blast
  next
    case (Inr req0)
    note nr = this
    show ?thesis
    proof (cases "Do (httpClient c) (set_headers c req0)")
      case (Inl err)
      with mb nr have "snd (do up c ctx m p b dst res) = Inl (Errorf_w ''failed to execute request: '' err)"
        by (simp add: do_unfold)
      moreover have "is_TransportError (Errorf_w ''failed to execute request: '' err)"
        unfolding is_TransportError_def Errorf_w_text by (rule has_prefix_append)
      ultimately show ?thesis unfolding in_taxonomy_def by blast
    next
      case (Inr resp)
      with mb nr have "snd (do up c ctx m p b dst res) = handle resp dst res"
        by (simp add: do_unfold)
      with handle_kind [of resp dst res] show ?thesis unfolding in_taxonomy_def by auto
    qed
  qed
qed

lemma returned_kind:
  assumes "(\<exists>v. r = Inr v) \<or> (\<exists>e. r = Inl e \<and> (in_taxonomy e \<or> is_RequestError e))"
  shows "(\<exists>v. returned r = (Some v, None))
       \<or> (\<exists>e. returned r = (None, Some e) \<and> (in_taxonomy e \<or> is_RequestError e))"
  using assms by (auto simp: returned_def)

lemma returned_map_kind:
  assumes "(\<exists>v. r = Inr v) \<or> (\<exists>e. r = Inl e \<and> (in_taxonomy e \<or> is_RequestError e))"
  shows "(\<exists>v. returned (map_sum id f r) = (Some v, None))
       \<or> (\<exists>e. returned (map_sum id f r) = (None, Some e) \<and> (in_taxonomy e \<or> is_RequestError e))"
  using assms by (auto simp: returned_def)

text \<open>
  C8, as the code has it. Every call of any of the five operations returns either a result
  and no error, or no result and one error; the error is of one of the four documented
  kinds (serialization, transport, API, decode) or is the error of a request that could
  not be built, \<^verbatim>\<open>failed to create request: <cause>\<close>.
\<close>

theorem all_or_nothing:
  "((\<exists>r. snd (Search up c ctx q so) = (Some r, None))
     \<or> (\<exists>e. snd (Search up c ctx q so) = (None, Some e) \<and> (in_taxonomy e \<or> is_RequestError e)))
   \<and> ((\<exists>r. snd (FindSimilar up c ctx u fo) = (Some r, None))
     \<or> (\<exists>e. snd (FindSimilar up c ctx u fo) = (None, Some e)
            \<and> (in_taxonomy e \<or> is_RequestError e)))
   \<and> ((\<exists>r. snd (GetContents up c ctx ids go) = (Some r, None))
     \<or> (\<exists>e. snd (GetContents up c ctx ids go) = (None, Some e)
            \<and> (in_taxonomy e \<or> is_RequestError e)))
   \<and> ((\<exists>r. snd (Answer up c ctx q') = (Some r, None))
     \<or> (\<exists>e. snd (Answer up c ctx q') = (None, Some e) \<and> (in_taxonomy e \<or> is_RequestError e)))
   \<and> ((\<exists>r. snd (Context up c ctx q'' t) = (Some r, None))
     \<or> (\<exists>e. snd (Context up c ctx q'' t) = (None, Some e)
            \<and> (in_taxonomy e \<or> is_RequestError e)))"
  unfolding op_unfold snd_conv
  by (intro conjI returned_kind returned_map_kind do_kind)

text \<open>
  The claim as stated fails on the fifth kind: with a nil context the library refuses to
  build the request, and the error returned is none of the four documented kinds.
\<close>

theorem request_error_counterexample:
  "snd (Search any_url (test_client 200 (Inr JNull)) None ''query'' zero_SearchOptions)
     = (None, Some (Error ''failed to create request: net/http: nil Context''
                      (Some (LibError ''net/http: nil Context''))))
   \<and> \<not> in_taxonomy (Error ''failed to create request: net/http: nil Context''
                      (Some (LibError ''net/http: nil Context'')))"
  by code_simp

end
